theory Spec2Isabelle
  imports Main
begin

section \<open>JavaScript values, promises and the process state\<close>

text \<open>
  The repository holds three snapshots of the data-access module of LightBnB:
  \<^verbatim>\<open>LightBnB_WebApp-master/server/database.js\<close> (the earliest), \<^verbatim>\<open>unnamed/part_000\<close>
  and \<^verbatim>\<open>unnamed/part_001\<close> (the latest).  Functions whose text is the same in all
  snapshots are embedded once; a function that differs between snapshots is embedded
  once per variant, the variant of \<^verbatim>\<open>part_001\<close> under the source's name.

  JavaScript values.  Numbers are the integer-valued ones and NaN; the \<^verbatim>\<open>*\<close> operator,
  which coerces its operands and multiplies IEEE doubles, is not defined here but taken
  as a parameter where the code uses it.  An object is the list of its own enumerable
  properties in enumeration order (the order of \<^verbatim>\<open>for ... in\<close>, \<^verbatim>\<open>Object.keys\<close> and
  \<^verbatim>\<open>Object.values\<close>).  An object that the code only reads is the value \<open>JObj\<close>; an object
  that the code changes has an identity: it lives on the heap, and \<open>JRef\<close> is the reference
  to it that variables, properties and promises hold.
\<close>

datatype jsval =
    JUndefined
  | JNull
  | JBool bool
  | JNum int
  | JNaN
  | JStr string
  | JArr "jsval list"
  | JObj "(string \<times> jsval) list"
  | JRef nat

type_synonym jsobject = "(string \<times> jsval) list"

text \<open>\<^verbatim>\<open>obj[key]\<close> and \<^verbatim>\<open>obj.key\<close>: the value of the property, \<^verbatim>\<open>undefined\<close> when absent.\<close>

definition get_prop :: "jsobject \<Rightarrow> string \<Rightarrow> jsval" where
  "get_prop obj key = (case map_of obj key of None \<Rightarrow> JUndefined | Some v \<Rightarrow> v)"

definition object_keys :: "jsobject \<Rightarrow> string list" where
  "object_keys obj = map fst obj"

definition object_values :: "jsobject \<Rightarrow> jsval list" where
  "object_values obj = map snd obj"

text \<open>\<^verbatim>\<open>Array.prototype.join\<close> on an array of strings.\<close>

fun join :: "string \<Rightarrow> string list \<Rightarrow> string" where
  "join sep [] = []"
| "join sep [x] = x"
| "join sep (x # y # ys) = x @ sep @ join sep (y # ys)"

text \<open>The decimal text of a non-negative integer, as \<^verbatim>\<open>'$' + count\<close> renders the number.\<close>

definition digit :: "nat \<Rightarrow> char" where
  "digit d = ''0123456789'' ! d"

function string_of_nat :: "nat \<Rightarrow> string" where
  "string_of_nat n =
     (if n < 10 then [digit n] else string_of_nat (n div 10) @ [digit (n mod 10)])"
  by pat_completeness auto
termination
  by (relation "measure id") auto

declare string_of_nat.simps [simp del]

text \<open>The number a string of decimal digits denotes, read from the left onto \<open>acc\<close>.\<close>

fun decimal :: "string \<Rightarrow> nat \<Rightarrow> nat option" where
  "decimal [] acc = Some acc"
| "decimal (c # cs) acc =
     (if c \<in> set ''0123456789'' then decimal cs (10 * acc + (of_char c - 48)) else None)"

text \<open>
  \<^verbatim>\<open>obj[key] = v\<close>.  A property the object has keeps its place and gets the new value.  A new
  property takes its place in the enumeration order: keys that are array indices (the
  decimal text of a number below \<open>2\<^sup>3\<^sup>2 - 1\<close>) come first, in ascending order, then
  the other keys in the order they were added.
\<close>

definition array_index :: "string \<Rightarrow> nat option" where
  "array_index key =
     (case decimal key 0 of
        None \<Rightarrow> None
      | Some n \<Rightarrow> if key \<noteq> [] \<and> string_of_nat n = key \<and> n < 4294967295 then Some n else None)"

definition enumerated_before :: "string \<Rightarrow> string \<Rightarrow> bool" where
  "enumerated_before key k =
     (case array_index key of
        None \<Rightarrow> False
      | Some n \<Rightarrow> (case array_index k of None \<Rightarrow> True | Some m \<Rightarrow> n < m))"

fun replace_key :: "jsobject \<Rightarrow> string \<Rightarrow> jsval \<Rightarrow> jsobject" where
  "replace_key [] key v = []"
| "replace_key ((k, w) # rest) key v =
     (if k = key then (k, v) # rest else (k, w) # replace_key rest key v)"

fun insert_key :: "jsobject \<Rightarrow> string \<Rightarrow> jsval \<Rightarrow> jsobject" where
  "insert_key [] key v = [(key, v)]"
| "insert_key ((k, w) # rest) key v =
     (if enumerated_before key k then (key, v) # (k, w) # rest
      else (k, w) # insert_key rest key v)"

definition set_prop :: "jsobject \<Rightarrow> string \<Rightarrow> jsval \<Rightarrow> jsobject" where
  "set_prop obj key v =
     (if key \<in> set (object_keys obj) then replace_key obj key v else insert_key obj key v)"

text \<open>
  A settled promise.  The driver rejects with an \<^verbatim>\<open>Error\<close> object, of which the code
  reads the \<^verbatim>\<open>message\<close> only.
\<close>

datatype js_error = Error (message: string)

datatype 'a promise = Resolved 'a | Rejected js_error

text \<open>
  The state a call runs in.  \<open>db\<close> is the state of the database server, which is outside
  the process; \<open>console\<close> the lines written by \<^verbatim>\<open>console.log\<close>; \<open>roundtrips\<close> the
  statements sent through \<^verbatim>\<open>pool.query\<close> with their bound parameters, oldest first;
  \<open>properties\<close> and \<open>users\<close> the module-level objects loaded from
  \<^verbatim>\<open>./json/properties.json\<close> and \<^verbatim>\<open>./json/users.json\<close>; \<open>heap\<close> the objects with an identity,
  by address.
\<close>

record 'db world =
  db :: 'db
  console :: "string list"
  roundtrips :: "(string \<times> jsval list) list"
  properties :: jsobject
  users :: jsobject
  heap :: "nat \<rightharpoonup> jsobject"

text \<open>
  The database server is a parameter: given its state, a statement and the bound
  parameters it answers with an error or the result's rows, and moves to a new state.
\<close>

type_synonym 'db server = "'db \<Rightarrow> string \<Rightarrow> jsval list \<Rightarrow> (js_error + jsval list) \<times> 'db"

text \<open>\<^verbatim>\<open>pool.query(queryString, values)\<close>: one round trip; the promise carries \<^verbatim>\<open>result.rows\<close>.\<close>

definition pool_query ::
  "'db server \<Rightarrow> string \<Rightarrow> jsval list \<Rightarrow> 'db world \<Rightarrow> jsval list promise \<times> 'db world" where
  "pool_query exec queryString vals s =
     (case exec (db s) queryString vals of
        (answer, d) \<Rightarrow>
          ((case answer of Inl err \<Rightarrow> Rejected err | Inr rows \<Rightarrow> Resolved rows),
           s\<lparr>db := d, roundtrips := roundtrips s @ [(queryString, vals)]\<rparr>))"

text \<open>\<^verbatim>\<open>.then(f)\<close> and \<^verbatim>\<open>.catch(g)\<close> on a settled promise; the handlers run in the state.\<close>

definition promise_then ::
  "('a \<Rightarrow> 's \<Rightarrow> 'b promise \<times> 's) \<Rightarrow> 'a promise \<times> 's \<Rightarrow> 'b promise \<times> 's" where
  "promise_then f ps = (case ps of (Resolved x, s) \<Rightarrow> f x s | (Rejected e, s) \<Rightarrow> (Rejected e, s))"

definition promise_catch ::
  "(js_error \<Rightarrow> 's \<Rightarrow> 'a promise \<times> 's) \<Rightarrow> 'a promise \<times> 's \<Rightarrow> 'a promise \<times> 's" where
  "promise_catch g ps = (case ps of (Resolved x, s) \<Rightarrow> (Resolved x, s) | (Rejected e, s) \<Rightarrow> g e s)"

text \<open>\<^verbatim>\<open>console.log(text)\<close>.\<close>

definition console_log :: "string \<Rightarrow> 'db world \<Rightarrow> 'db world" where
  "console_log line s = s\<lparr>console := console s @ [line]\<rparr>"

text \<open>
  The handler every function installs with \<^verbatim>\<open>.catch\<close>:
  \<^verbatim>\<open>(err) => { console.log(err.message); }\<close>.  It returns nothing, so the promise it
  settles resolves to \<^verbatim>\<open>undefined\<close>.
\<close>

definition log_error :: "js_error \<Rightarrow> 'db world \<Rightarrow> jsval promise \<times> 'db world" where
  "log_error err s = (Resolved JUndefined, console_log (message err) s)"

text \<open>\<^verbatim>\<open>result.rows[0]\<close>: \<^verbatim>\<open>undefined\<close> when there is no row.\<close>

definition first_row :: "jsval list \<Rightarrow> jsval" where
  "first_row rows = (case rows of [] \<Rightarrow> JUndefined | r # _ \<Rightarrow> r)"

section \<open>Users\<close>

definition getUserWithEmail_query :: string where
  "getUserWithEmail_query =
     ''SELECT * FROM users\<newline>     WHERE email = $1;  \<newline>  ''"

definition getUserWithEmail :: "'db server \<Rightarrow> jsval \<Rightarrow> 'db world \<Rightarrow> jsval promise \<times> 'db world" where
  "getUserWithEmail exec email s =
     promise_catch log_error
       (promise_then (\<lambda>rows s'. (Resolved (if length rows = 0 then JNull else first_row rows), s'))
          (pool_query exec getUserWithEmail_query [email] s))"

definition getUserWithId_query :: string where
  "getUserWithId_query =
     ''SELECT * FROM users\<newline>     WHERE id = $1;  \<newline>  ''"

definition getUserWithId :: "'db server \<Rightarrow> jsval \<Rightarrow> 'db world \<Rightarrow> jsval promise \<times> 'db world" where
  "getUserWithId exec uid s =
     promise_catch log_error
       (promise_then (\<lambda>rows s'. (Resolved (if length rows = 0 then JNull else first_row rows), s'))
          (pool_query exec getUserWithId_query [uid] s))"

text \<open>
  \<^verbatim>\<open>addUser\<close> of \<^verbatim>\<open>part_001\<close>: one \<^verbatim>\<open>INSERT ... RETURNING *\<close>.
\<close>

definition addUser_query :: string where
  "addUser_query =
     ''\<newline>     INSERT INTO users (name, email, password) \<newline>       VALUES ($1, $2, $3) RETURNING *;;\<newline>  ''"

definition addUser :: "'db server \<Rightarrow> jsobject \<Rightarrow> 'db world \<Rightarrow> jsval promise \<times> 'db world" where
  "addUser exec user s =
     (let vals = [get_prop user ''name'', get_prop user ''email'', get_prop user ''password'']
      in promise_catch log_error
           (promise_then (\<lambda>rows s'. (Resolved (first_row rows), s'))
              (pool_query exec addUser_query vals s)))"

text \<open>
  \<^verbatim>\<open>addUser\<close> of \<^verbatim>\<open>database.js\<close> and \<^verbatim>\<open>part_000\<close>: an \<^verbatim>\<open>INSERT\<close>, and from its
  \<^verbatim>\<open>.then\<close> handler a \<^verbatim>\<open>SELECT\<close> by email that reads the new row back; each query has
  its own \<^verbatim>\<open>.catch\<close>.
\<close>

definition queryStringAdd :: string where
  "queryStringAdd =
     ''\<newline>     INSERT INTO users (name, email, password) \<newline>       VALUES ($1, $2, $3);\<newline>  ''"

definition queryStringGet :: string where
  "queryStringGet =
     ''\<newline>    SELECT * FROM users \<newline>      WHERE email = $1;\<newline>''"

definition addUser_select_back :: "'db server \<Rightarrow> jsobject \<Rightarrow> 'db world \<Rightarrow> jsval promise \<times> 'db world" where
  "addUser_select_back exec user s =
     (let valuesAdd = [get_prop user ''name'', get_prop user ''email'', get_prop user ''password''];
          valuesGet = [get_prop user ''email'']
      in promise_catch log_error
           (promise_then
              (\<lambda>result s'.
                 promise_catch log_error
                   (promise_then (\<lambda>newUser s''. (Resolved (first_row newUser), s''))
                      (pool_query exec queryStringGet valuesGet s')))
              (pool_query exec queryStringAdd valuesAdd s)))"

section \<open>Reservations\<close>

text \<open>A default parameter value applies when the argument is \<^verbatim>\<open>undefined\<close> (or omitted).\<close>

definition default_arg :: "jsval \<Rightarrow> jsval \<Rightarrow> jsval" where
  "default_arg d v = (if v = JUndefined then d else v)"

text \<open>\<^verbatim>\<open>getAllReservations\<close> of \<^verbatim>\<open>part_000\<close> and \<^verbatim>\<open>part_001\<close>.\<close>

definition getAllReservations_query :: string where
  "getAllReservations_query =
     ''\<newline>  SELECT reservations.id, properties.title, properties.cost_per_night, properties.number_of_bedrooms, properties.number_of_bathrooms,\<newline>         properties.parking_spaces, properties.cover_photo_url, reservations.start_date, reservations.end_date, avg(rating) as average_rating\<newline>    FROM reservations\<newline>    JOIN properties ON reservations.property_id = properties.id\<newline>    JOIN property_reviews ON properties.id = property_reviews.property_id\<newline>    WHERE reservations.guest_id = $1\<newline>    GROUP BY properties.id, reservations.id\<newline>    ORDER BY reservations.start_date\<newline>    LIMIT $2;\<newline>  ''"

definition getAllReservations ::
  "'db server \<Rightarrow> jsval \<Rightarrow> jsval \<Rightarrow> 'db world \<Rightarrow> jsval promise \<times> 'db world" where
  "getAllReservations exec guest_id limit_arg s =
     (let limit = default_arg (JNum 10) limit_arg;
          vals = [guest_id, limit]
      in promise_catch log_error
           (promise_then (\<lambda>rows s'. (Resolved (if length rows = 0 then JNull else JArr rows), s'))
              (pool_query exec getAllReservations_query vals s)))"

section \<open>Properties\<close>

text \<open>
  \<^verbatim>\<open>getAllProperties\<close> of \<^verbatim>\<open>database.js\<close>: the filters are commented out, \<^verbatim>\<open>options\<close> is
  not read.
\<close>

definition getAllProperties_unfiltered_query :: string where
  "getAllProperties_unfiltered_query = ''\<newline>    SELECT * FROM properties LIMIT $1;\<newline>  ''"

definition getAllProperties_unfiltered ::
  "'db server \<Rightarrow> jsval \<Rightarrow> jsval \<Rightarrow> 'db world \<Rightarrow> jsval promise \<times> 'db world" where
  "getAllProperties_unfiltered exec options limit_arg s =
     (let limit = default_arg (JNum 10) limit_arg
      in promise_catch log_error
           (promise_then (\<lambda>rows s'. (Resolved (JArr rows), s'))
              (pool_query exec getAllProperties_unfiltered_query [limit] s)))"

text \<open>
  \<^verbatim>\<open>getAllReservations\<close> of \<^verbatim>\<open>database.js\<close>:
  \<^verbatim>\<open>return getAllProperties(null, 2);\<close>
\<close>

definition getAllReservations_stub ::
  "'db server \<Rightarrow> jsval \<Rightarrow> jsval \<Rightarrow> 'db world \<Rightarrow> jsval promise \<times> 'db world" where
  "getAllReservations_stub exec guest_id limit_arg s =
     getAllProperties_unfiltered exec JNull (JNum 2) s"

text \<open>
  \<^verbatim>\<open>getAllProperties\<close> of \<^verbatim>\<open>part_000\<close> and \<^verbatim>\<open>part_001\<close>.  One guarded block of the loop
  body, \<^verbatim>\<open>if (key === name) { values.push(v); whereClause.push(text); }\<close>:
\<close>

definition push_when ::
  "bool \<Rightarrow> jsval \<Rightarrow> string \<Rightarrow> jsval list \<times> string list \<Rightarrow> jsval list \<times> string list" where
  "push_when c v txt acc =
     (case acc of (vals, whereClause) \<Rightarrow>
        if c then (vals @ [v], whereClause @ [txt]) else (vals, whereClause))"

text \<open>
  The body of \<^verbatim>\<open>for (let key in options)\<close>, on the variables \<^verbatim>\<open>values\<close>,
  \<^verbatim>\<open>whereClause\<close> and \<^verbatim>\<open>count\<close>.  \<open>mul\<close> is JavaScript's \<^verbatim>\<open>*\<close>.
\<close>

definition filter_body ::
  "(jsval \<Rightarrow> jsval \<Rightarrow> jsval) \<Rightarrow> jsobject \<Rightarrow> string \<Rightarrow>
   jsval list \<times> string list \<times> nat \<Rightarrow> jsval list \<times> string list \<times> nat" where
  "filter_body mul options key st =
     (case st of (vals, whereClause, count) \<Rightarrow>
        if get_prop options key \<noteq> JStr [] then
          (let pushed =
                 push_when (key = ''city'') (get_prop options key)
                   (''properties.city = $'' @ string_of_nat count) (vals, whereClause);
               pushed =
                 push_when (key = ''minimum_price_per_night'') (mul (get_prop options key) (JNum 100))
                   (''properties.cost_per_night >= $'' @ string_of_nat count) pushed;
               pushed =
                 push_when (key = ''maximum_price_per_night'') (mul (get_prop options key) (JNum 100))
                   (''properties.cost_per_night <= $'' @ string_of_nat count) pushed;
               pushed =
                 push_when (key = ''minimum_rating'') (get_prop options key)
                   (''rating >= $'' @ string_of_nat count) pushed
           in (fst pushed, snd pushed, count + 1))
        else (vals, whereClause, count))"

fun filter_loop ::
  "(jsval \<Rightarrow> jsval \<Rightarrow> jsval) \<Rightarrow> jsobject \<Rightarrow> string list \<Rightarrow>
   jsval list \<times> string list \<times> nat \<Rightarrow> jsval list \<times> string list \<times> nat" where
  "filter_loop mul options [] st = st"
| "filter_loop mul options (key # keys) st =
     filter_loop mul options keys (filter_body mul options key st)"

text \<open>
  \<^verbatim>\<open>whereClause.length > 0 ? 'WHERE ' + whereClause.join(' AND ') + ' ' : ''\<close>
\<close>

definition whereString_of :: "string list \<Rightarrow> string" where
  "whereString_of whereClause =
     (if length whereClause > 0 then ''WHERE '' @ join '' AND '' whereClause @ '' '' else [])"

definition getAllProperties_select :: string where
  "getAllProperties_select =
     ''\<newline>  SELECT DISTINCT properties.*, AVG(rating) as average_rating\<newline>  FROM properties\<newline>  JOIN property_reviews ON properties.id = property_reviews.property_id\<newline>  ''"

definition getAllProperties_group_limit :: string where
  "getAllProperties_group_limit =
     ''GROUP BY properties.id      \<newline>    LIMIT $1;     \<newline>  ''"

text \<open>The statement and the parameters \<^verbatim>\<open>getAllProperties\<close> sends.\<close>

definition getAllProperties_request ::
  "(jsval \<Rightarrow> jsval \<Rightarrow> jsval) \<Rightarrow> jsobject \<Rightarrow> jsval \<Rightarrow> string \<times> jsval list" where
  "getAllProperties_request mul options limit_arg =
     (let limit = default_arg (JNum 10) limit_arg
      in case filter_loop mul options (object_keys options) ([limit], [], 2) of
           (vals, whereClause, count) \<Rightarrow>
             (getAllProperties_select @ whereString_of whereClause @ getAllProperties_group_limit,
              vals))"

definition getAllProperties ::
  "(jsval \<Rightarrow> jsval \<Rightarrow> jsval) \<Rightarrow> 'db server \<Rightarrow> jsobject \<Rightarrow> jsval \<Rightarrow> 'db world \<Rightarrow>
   jsval promise \<times> 'db world" where
  "getAllProperties mul exec options limit_arg s =
     (case getAllProperties_request mul options limit_arg of
        (queryString, vals) \<Rightarrow>
          promise_catch log_error
            (promise_then (\<lambda>rows s'. (Resolved (JArr rows), s'))
               (pool_query exec queryString vals s)))"

text \<open>
  \<^verbatim>\<open>addProperty\<close> of \<^verbatim>\<open>part_001\<close>.  \<^verbatim>\<open>if (values[i] === '') values[i] = '0';\<close> reads
  \<^verbatim>\<open>undefined\<close> past the end of the array and then writes nothing.
\<close>

definition blank_to_zero :: "nat \<Rightarrow> jsval list \<Rightarrow> jsval list" where
  "blank_to_zero i vals =
     (if i < length vals \<and> vals ! i = JStr [] then vals[i := JStr ''0''] else vals)"

definition addProperty_insert :: string where
  "addProperty_insert = ''\<newline>  INSERT INTO properties (''"

definition addProperty_values :: string where
  "addProperty_values =
     '') \<newline>    VALUES ($1, $2, $3, $4, $5, $6, $7, $8, $9, $10, $11, $12, $13, $14) RETURNING *;;\<newline>''"

text \<open>
  The statement and the parameters \<^verbatim>\<open>addProperty\<close> sends.  An array concatenated to a
  string is its elements joined by commas.
\<close>

definition addProperty_request :: "jsobject \<Rightarrow> string \<times> jsval list" where
  "addProperty_request property =
     (addProperty_insert @ join '','' (object_keys property) @ addProperty_values,
      blank_to_zero 5 (blank_to_zero 4 (blank_to_zero 3 (blank_to_zero 2
        (object_values property)))))"

definition addProperty :: "'db server \<Rightarrow> jsobject \<Rightarrow> 'db world \<Rightarrow> jsval promise \<times> 'db world" where
  "addProperty exec property s =
     (case addProperty_request property of
        (queryString, vals) \<Rightarrow>
          promise_catch log_error
            (promise_then (\<lambda>rows s'. (Resolved (first_row rows), s'))
               (pool_query exec queryString vals s)))"

text \<open>
  \<^verbatim>\<open>addProperty\<close> of \<^verbatim>\<open>database.js\<close> and \<^verbatim>\<open>part_000\<close>: no query.  The argument is a
  reference to the caller's object.  The function sets \<^verbatim>\<open>id\<close> on that object, stores the
  reference in the module's \<^verbatim>\<open>properties\<close> object under the same number, and resolves to
  the reference: caller, store and promise share one object.  A reference is always to a
  live object; an address the heap does not hold is read as the empty object.
\<close>

definition object_at :: "'db world \<Rightarrow> nat \<Rightarrow> jsobject" where
  "object_at s a = (case heap s a of None \<Rightarrow> [] | Some obj \<Rightarrow> obj)"

definition addProperty_in_memory :: "nat \<Rightarrow> 'db world \<Rightarrow> jsval promise \<times> 'db world" where
  "addProperty_in_memory property s =
     (let propertyId = length (object_keys (properties s)) + 1;
          s = s\<lparr>heap := (heap s)(property \<mapsto>
                 set_prop (object_at s property) ''id'' (JNum (int propertyId)))\<rparr>;
          s = s\<lparr>properties := set_prop (properties s) (string_of_nat propertyId) (JRef property)\<rparr>
      in (Resolved (JRef property), s))"

section \<open>Stand-ins for concrete runs\<close>

text \<open>
  A stand-in for the PostgreSQL server, to run the functions on concrete inputs: its
  state is the \<^verbatim>\<open>users\<close> table, a list of rows.  It answers the two lookups and the
  two \<^verbatim>\<open>INSERT\<close> statements of \<^verbatim>\<open>addUser\<close>, giving a new row the next \<^verbatim>\<open>id\<close>; any other
  statement is an error.
\<close>

definition row_has :: "string \<Rightarrow> jsval \<Rightarrow> jsval \<Rightarrow> bool" where
  "row_has column v row = (case row of JObj props \<Rightarrow> get_prop props column = v | _ \<Rightarrow> False)"

definition new_user_row :: "jsval list \<Rightarrow> jsval list \<Rightarrow> jsval" where
  "new_user_row table vals =
     JObj [(''id'', JNum (int (length table) + 1)), (''name'', vals ! 0),
           (''email'', vals ! 1), (''password'', vals ! 2)]"

definition users_server :: "jsval list server" where
  "users_server table queryString vals =
     (if (queryString = getUserWithEmail_query \<or> queryString = queryStringGet) \<and> length vals = 1
        then (Inr (filter (row_has ''email'' (vals ! 0)) table), table)
      else if queryString = getUserWithId_query \<and> length vals = 1
        then (Inr (filter (row_has ''id'' (vals ! 0)) table), table)
      else if queryString = addUser_query \<and> length vals = 3
        then (Inr [new_user_row table vals], table @ [new_user_row table vals])
      else if queryString = queryStringAdd \<and> length vals = 3
        then (Inr [], table @ [new_user_row table vals])
      else (Inl (Error ''syntax error''), table))"

text \<open>A server that is down: every statement fails.\<close>

definition refusing_server :: "unit server" where
  "refusing_server d queryString vals = (Inl (Error ''connection refused''), d)"

text \<open>The state of a fresh process whose \<^verbatim>\<open>users\<close> table holds one row.\<close>

definition alice :: jsval where
  "alice = JObj [(''id'', JNum 1), (''name'', JStr ''Alice''),
                 (''email'', JStr ''alice@example.com''), (''password'', JStr ''secret'')]"

definition bob :: jsobject where
  "bob = [(''name'', JStr ''Bob''), (''email'', JStr ''bob@example.com''),
          (''password'', JStr ''hunter2'')]"

definition world0 :: "jsval list world" where
  "world0 = \<lparr>db = [alice], console = [], roundtrips = [], properties = [], users = [], heap = Map.empty\<rparr>"

definition down0 :: "unit world" where
  "down0 = \<lparr>db = (), console = [], roundtrips = [], properties = [], users = [], heap = Map.empty\<rparr>"

text \<open>
  A stand-in for \<^verbatim>\<open>*\<close>, to run \<^verbatim>\<open>getAllProperties\<close> on concrete inputs.  It agrees with
  JavaScript on integer-valued numbers and on non-empty strings of decimal digits, where
  the product is exact, and is used on such operands only.
\<close>

fun integer_of :: "jsval \<Rightarrow> int option" where
  "integer_of (JNum n) = Some n"
| "integer_of (JStr (c # cs)) = map_option int (decimal (c # cs) 0)"
| "integer_of v = None"

definition integer_times :: "jsval \<Rightarrow> jsval \<Rightarrow> jsval" where
  "integer_times v w =
     (case (integer_of v, integer_of w) of (Some a, Some b) \<Rightarrow> JNum (a * b) | _ \<Rightarrow> JNaN)"

text \<open>A property as the listing form submits it, some fields left blank.\<close>

definition listing :: jsobject where
  "listing =
     [(''title'', JStr []), (''description'', JStr ''Quiet''),
      (''number_of_bedrooms'', JStr []), (''number_of_bathrooms'', JStr ''2''),
      (''parking_spaces'', JStr []), (''cost_per_night'', JStr ''9300''),
      (''thumbnail_photo_url'', JStr []), (''cover_photo_url'', JStr []),
      (''street'', JStr ''1 Main St''), (''country'', JStr ''Canada''),
      (''city'', JStr ''Vancouver''), (''province'', JStr ''BC''),
      (''post_code'', JStr []), (''owner_id'', JNum 1)]"

text \<open>
  A server whose state is the rows a search matches; it returns as many of them as the
  first parameter allows.
\<close>

definition limiting_server :: "jsval list server" where
  "limiting_server table queryString vals =
     (case vals of
        JNum n # binds \<Rightarrow> (Inr (take (nat n) table), table)
      | _ \<Rightarrow> (Inl (Error ''bad limit''), table))"

definition listings0 :: "jsval list world" where
  "listings0 = \<lparr>db = [JObj [(''id'', JNum 1)], JObj [(''id'', JNum 2)], JObj [(''id'', JNum 3)]],
                console = [], roundtrips = [], properties = [], users = [], heap = Map.empty\<rparr>"

section \<open>A stand-in for PostgreSQL that reads the statement\<close>

text \<open>
  The server above is a parameter.  The one defined here runs the text it is sent, so
  that what a function resolves to can be stated in terms of the rows of a table.  The
  text is split into tokens at white space and at the punctuation \<^verbatim>\<open>( ) , ;\<close>.
\<close>

definition is_space :: "char \<Rightarrow> bool" where
  "is_space c = (c = CHR '' '' \<or> c = CHR ''\<newline>'')"

definition is_punct :: "char \<Rightarrow> bool" where
  "is_punct c = (c \<in> set ''(),;'')"

definition flush :: "string \<Rightarrow> string list" where
  "flush w = (if w = [] then [] else [w])"

fun scan :: "string \<Rightarrow> string \<Rightarrow> string list" where
  "scan w [] = flush w"
| "scan w (c # cs) =
     (if is_space c then flush w @ scan [] cs
      else if is_punct c then flush w @ [c] # scan [] cs
      else scan (w @ [c]) cs)"

definition tokens :: "string \<Rightarrow> string list" where
  "tokens text = scan [] text"

text \<open>The tokens of the statement; empty statements after it (\<^verbatim>\<open>;;\<close>) are dropped.\<close>

definition statement_tokens :: "string \<Rightarrow> string list" where
  "statement_tokens text = rev (dropWhile (\<lambda>t. t = '';'') (rev (tokens text)))"

text \<open>The value bound to a placeholder \<^verbatim>\<open>$k\<close>: the \<open>k\<close>-th of the values sent.\<close>

definition placeholder :: "string \<Rightarrow> nat option" where
  "placeholder tok =
     (case tok of
        [] \<Rightarrow> None
      | c # ds \<Rightarrow> if c = CHR ''$'' \<and> ds \<noteq> [] then decimal ds 0 else None)"

definition parameter :: "jsval list \<Rightarrow> string \<Rightarrow> jsval option" where
  "parameter vals tok =
     (case placeholder tok of
        None \<Rightarrow> None
      | Some k \<Rightarrow> if 1 \<le> k \<and> k \<le> length vals then Some (vals ! (k - 1)) else None)"

text \<open>
  Modelled from the spec: the schema of the database is not in the source, and the spec
  leaves it unspecified.  A database is its tables by name, a table a list of passive
  rows with no constraint; an \<^verbatim>\<open>INSERT\<close> gives the new row the next number as its \<^verbatim>\<open>id\<close>
  and adds it at the end; a \<^verbatim>\<open>SELECT\<close> returns rows in the order of the table.  The
  statements understood are \<^verbatim>\<open>SELECT * FROM t\<close>, \<^verbatim>\<open>SELECT * FROM t WHERE c = $k\<close> and
  \<^verbatim>\<open>INSERT INTO t (c, ...) VALUES ($k, ...)\<close> with or without \<^verbatim>\<open>RETURNING *\<close>; anything
  else is a syntax error.  As in SQL, nothing equals \<^verbatim>\<open>NULL\<close>, which is how the driver
  sends \<^verbatim>\<open>null\<close> and \<^verbatim>\<open>undefined\<close>.
\<close>

type_synonym database = "(string \<times> jsobject list) list"

type_synonym 'd engine =
  "'d \<Rightarrow> string list \<Rightarrow> jsval list \<Rightarrow> (js_error + jsval list) \<times> 'd"

datatype statement =
    Select_all string
  | Select_where string string string
  | Insert string "string list" "string list" bool

fun comma_list :: "string list \<Rightarrow> string list option" where
  "comma_list [] = None"
| "comma_list [a] = Some [a]"
| "comma_list (a # sep # others) =
     (if sep = '','' then map_option (Cons a) (comma_list others) else None)"

definition paren_list :: "string list \<Rightarrow> (string list \<times> string list) option" where
  "paren_list toks =
     (case toks of
        [] \<Rightarrow> None
      | opening # rest \<Rightarrow>
          if opening = ''('' \<and> '')'' \<in> set rest
          then map_option (\<lambda>xs. (xs, tl (dropWhile (\<lambda>t. t \<noteq> '')'') rest)))
                 (comma_list (takeWhile (\<lambda>t. t \<noteq> '')'') rest))
          else None)"

definition parse_insert :: "string list \<Rightarrow> statement option" where
  "parse_insert toks =
     (case paren_list (drop 3 toks) of
        None \<Rightarrow> None
      | Some (columns, rest) \<Rightarrow>
          (case rest of
             [] \<Rightarrow> None
           | v # rest' \<Rightarrow>
               if v \<noteq> ''VALUES'' then None
               else (case paren_list rest' of
                       None \<Rightarrow> None
                     | Some (places, tail) \<Rightarrow>
                         if tail = [] then Some (Insert (toks ! 2) columns places False)
                         else if tail = [''RETURNING'', ''*'']
                           then Some (Insert (toks ! 2) columns places True)
                         else None)))"

definition parse :: "string list \<Rightarrow> statement option" where
  "parse toks =
     (if take 3 toks = [''SELECT'', ''*'', ''FROM''] \<and> length toks = 4
        then Some (Select_all (toks ! 3))
      else if take 3 toks = [''SELECT'', ''*'', ''FROM''] \<and> length toks = 8
              \<and> toks ! 4 = ''WHERE'' \<and> toks ! 6 = ''=''
        then Some (Select_where (toks ! 3) (toks ! 5) (toks ! 7))
      else if take 2 toks = [''INSERT'', ''INTO''] \<and> 3 \<le> length toks
        then parse_insert toks
      else None)"

definition sql_equal :: "jsval \<Rightarrow> jsval \<Rightarrow> bool" where
  "sql_equal a b = (a = b \<and> a \<noteq> JNull \<and> a \<noteq> JUndefined)"

definition store :: "database \<Rightarrow> string \<Rightarrow> jsobject list \<Rightarrow> database" where
  "store d t rows = map (\<lambda>entry. if fst entry = t then (t, rows) else entry) d"

definition no_relation :: js_error where
  "no_relation = Error ''relation does not exist''"

definition no_parameter :: js_error where
  "no_parameter = Error ''there is no parameter''"

fun run :: "database \<Rightarrow> statement \<Rightarrow> jsval list \<Rightarrow> (js_error + jsval list) \<times> database" where
  "run d (Select_all t) vals =
     (case map_of d t of
        None \<Rightarrow> (Inl no_relation, d)
      | Some rows \<Rightarrow> (Inr (map JObj rows), d))"
| "run d (Select_where t c place) vals =
     (case map_of d t of
        None \<Rightarrow> (Inl no_relation, d)
      | Some rows \<Rightarrow>
          (case parameter vals place of
             None \<Rightarrow> (Inl no_parameter, d)
           | Some v \<Rightarrow> (Inr (map JObj (filter (\<lambda>row. sql_equal (get_prop row c) v) rows)), d)))"
| "run d (Insert t columns places returning) vals =
     (case map_of d t of
        None \<Rightarrow> (Inl no_relation, d)
      | Some rows \<Rightarrow>
          (case those (map (parameter vals) places) of
             None \<Rightarrow> (Inl no_parameter, d)
           | Some vs \<Rightarrow>
               if length vs \<noteq> length columns
               then (Inl (Error ''INSERT has more target columns than expressions''), d)
               else (let row = (''id'', JNum (int (length rows) + 1)) # zip columns vs
                     in (Inr (if returning then [JObj row] else []), store d t (rows @ [row])))))"

definition tables_engine :: "database engine" where
  "tables_engine d toks vals =
     (case parse toks of
        None \<Rightarrow> (Inl (Error ''syntax error''), d)
      | Some st \<Rightarrow> run d st vals)"

text \<open>
  \<^verbatim>\<open>LIMIT $k\<close> at the end of a statement, in front of any engine for the rest of it.  The
  driver sends a number as its decimal text, so a string of digits counts like the number.
  PostgreSQL treats \<^verbatim>\<open>LIMIT NULL\<close> as no limit, and rejects a count that is negative or
  no integer.
\<close>

definition row_count :: "jsval \<Rightarrow> nat option" where
  "row_count v =
     (case v of
        JNum n \<Rightarrow> if 0 \<le> n then Some (nat n) else None
      | JStr digits \<Rightarrow> if digits = [] then None else decimal digits 0
      | _ \<Rightarrow> None)"

definition limit_clause :: "string list \<Rightarrow> (string list \<times> string) option" where
  "limit_clause toks =
     (case rev toks of
        place # keyword # body \<Rightarrow> if keyword = ''LIMIT'' then Some (rev body, place) else None
      | _ \<Rightarrow> None)"

definition postgres :: "'d engine \<Rightarrow> 'd server" where
  "postgres engine d text vals =
     (let toks = statement_tokens text
      in case limit_clause toks of
           None \<Rightarrow> engine d toks vals
         | Some (body, place) \<Rightarrow>
             (case parameter vals place of
                None \<Rightarrow> (Inl no_parameter, d)
              | Some limit \<Rightarrow>
                  if limit = JNull \<or> limit = JUndefined then engine d body vals
                  else (case row_count limit of
                          None \<Rightarrow> (Inl (Error ''invalid LIMIT''), d)
                        | Some n \<Rightarrow>
                            (case engine d body vals of
                               (answer, d') \<Rightarrow> (map_sum id (take n) answer, d')))))"


text \<open>A database with two users, and a sign-up under an email that one of them has.\<close>

definition alice_row :: jsobject where
  "alice_row = [(''id'', JNum 1), (''name'', JStr ''Alice''),
                (''email'', JStr ''alice@example.com''), (''password'', JStr ''secret'')]"

definition carol_row :: jsobject where
  "carol_row = [(''id'', JNum 2), (''name'', JStr ''Carol''),
                (''email'', JStr ''carol@example.com''), (''password'', JStr ''pass'')]"

definition eve :: jsobject where
  "eve = [(''name'', JStr ''Eve''), (''email'', JStr ''alice@example.com''),
          (''password'', JStr ''guess'')]"

definition lightbnb0 :: "database world" where
  "lightbnb0 = \<lparr>db = [(''users'', [alice_row, carol_row])], console = [], roundtrips = [],
                 properties = [], users = [], heap = Map.empty\<rparr>"

text \<open>
  Processes with objects on the heap: one whose \<^verbatim>\<open>properties\<close> object holds three entries,
  and a fresh one.
\<close>

definition memory0 :: "unit world" where
  "memory0 = \<lparr>db = (), console = [], roundtrips = [],
               properties = [(''1'', JRef 0), (''7'', JRef 1), (''note'', JStr ''kept'')],
               users = [],
               heap = [0 \<mapsto> [(''title'', JStr ''Cabin''), (''id'', JNum 1)],
                       1 \<mapsto> [(''title'', JStr ''Loft''), (''id'', JNum 7)],
                       2 \<mapsto> [(''title'', JStr ''Barn''), (''city'', JStr ''Vancouver'')]]\<rparr>"

definition fresh0 :: "unit world" where
  "fresh0 = \<lparr>db = (), console = [], roundtrips = [], properties = [], users = [],
              heap = [0 \<mapsto> [(''title'', JStr ''Cabin'')]]\<rparr>"

section \<open>The outcome of one query\<close>

text \<open>
  The state after one round trip whose answer left the server in state \<open>d\<close>, and after a
  failed one, whose error the \<^verbatim>\<open>.catch\<close> handler logged.
\<close>

definition after_query :: "'db \<Rightarrow> string \<Rightarrow> jsval list \<Rightarrow> 'db world \<Rightarrow> 'db world" where
  "after_query d queryString vals s =
     s\<lparr>db := d, roundtrips := roundtrips s @ [(queryString, vals)]\<rparr>"

definition after_failure ::
  "js_error \<Rightarrow> 'db \<Rightarrow> string \<Rightarrow> jsval list \<Rightarrow> 'db world \<Rightarrow> 'db world" where
  "after_failure err d queryString vals s =
     (after_query d queryString vals s)\<lparr>console := console s @ [message err]\<rparr>"

section \<open>Notions used in the statements\<close>

text \<open>
  The columns in the order the comment in \<^verbatim>\<open>addProperty\<close> lists them, and the four numeric
  ones among them.
\<close>

definition documented_columns :: "string list" where
  "documented_columns =
     [''title'', ''description'', ''number_of_bedrooms'', ''number_of_bathrooms'',
      ''parking_spaces'', ''cost_per_night'', ''thumbnail_photo_url'', ''cover_photo_url'',
      ''street'', ''country'', ''city'', ''province'', ''post_code'', ''owner_id'']"

definition numeric_columns :: "string list" where
  "numeric_columns =
     [''number_of_bedrooms'', ''number_of_bathrooms'', ''parking_spaces'', ''cost_per_night'']"

text \<open>
  The four fields \<^verbatim>\<open>getAllProperties\<close> filters on; a field is supplied when the options
  object has it with a value other than the empty string.  \<open>condition key n\<close> is the text
  the loop pushes for a filter field when \<^verbatim>\<open>count\<close> is \<open>n\<close>, \<open>bound_value\<close> the value it
  pushes with it.
\<close>

definition filter_names :: "string list" where
  "filter_names =
     [''city'', ''minimum_price_per_night'', ''maximum_price_per_night'', ''minimum_rating'']"

definition supplied :: "jsobject \<Rightarrow> string \<Rightarrow> bool" where
  "supplied options key = (key \<in> set (object_keys options) \<and> get_prop options key \<noteq> JStr [])"

definition condition :: "string \<Rightarrow> nat \<Rightarrow> string" where
  "condition key n =
     (if key = ''city'' then ''properties.city = $'' @ string_of_nat n
      else if key = ''minimum_price_per_night'' then ''properties.cost_per_night >= $'' @ string_of_nat n
      else if key = ''maximum_price_per_night'' then ''properties.cost_per_night <= $'' @ string_of_nat n
      else ''rating >= $'' @ string_of_nat n)"

definition bound_value :: "(jsval \<Rightarrow> jsval \<Rightarrow> jsval) \<Rightarrow> jsobject \<Rightarrow> string \<Rightarrow> jsval" where
  "bound_value mul options key =
     (if key = ''minimum_price_per_night'' \<or> key = ''maximum_price_per_night''
      then mul (get_prop options key) (JNum 100) else get_prop options key)"

text \<open>
  The keys with a value other than the empty string, each with the value \<^verbatim>\<open>count\<close> has when
  the loop reaches it, and those of them that are filter fields.
\<close>

fun numbered :: "jsobject \<Rightarrow> string list \<Rightarrow> nat \<Rightarrow> (string \<times> nat) list" where
  "numbered options [] n = []"
| "numbered options (key # keys) n =
     (if get_prop options key \<noteq> JStr [] then (key, n) # numbered options keys (n + 1)
      else numbered options keys n)"

definition filters_of :: "jsobject \<Rightarrow> string list \<Rightarrow> nat \<Rightarrow> (string \<times> nat) list" where
  "filters_of options keys n = filter (\<lambda>p. fst p \<in> set filter_names) (numbered options keys n)"

text \<open>
  A call ignores the in-process state (the heap and the module's \<open>properties\<close> and \<open>users\<close>
  objects): it leaves all three as they are, and run with others in their place it does
  the same and returns the same.
\<close>

definition ignores_memory :: "('db world \<Rightarrow> jsval promise \<times> 'db world) \<Rightarrow> bool" where
  "ignores_memory f =
     (\<forall>s h p u.
        heap (snd (f s)) = heap s \<and> properties (snd (f s)) = properties s
        \<and> users (snd (f s)) = users s
        \<and> f (s\<lparr>heap := h, properties := p, users := u\<rparr>)
            = (fst (f s), (snd (f s))\<lparr>heap := h, properties := p, users := u\<rparr>))"

section \<open>Properties of the model\<close>

lemma one_query_ok:
  assumes "exec (db s) q vs = (Inr rows, d)"
  shows "promise_catch log_error
           (promise_then (\<lambda>rows s'. (Resolved (h rows), s')) (pool_query exec q vs s))
         = (Resolved (h rows), after_query d q vs s)"
  using assms
  by (simp add: pool_query_def promise_then_def promise_catch_def after_query_def)

lemma one_query_failed:
  assumes "exec (db s) q vs = (Inl err, d)"
  shows "promise_catch log_error
           (promise_then (\<lambda>rows s'. (Resolved (h rows), s')) (pool_query exec q vs s))
         = (Resolved JUndefined, after_failure err d q vs s)"
  using assms
  by (simp add: pool_query_def promise_then_def promise_catch_def log_error_def
      console_log_def after_query_def after_failure_def)


lemma one_query_settles:
  "fst (promise_catch log_error
          (promise_then (\<lambda>rows s'. (Resolved (h rows), s')) (pool_query exec q vs s)))
   \<noteq> Rejected e"
proof (cases "exec (db s) q vs")
  case (Pair answer d)
  then show ?thesis
    by (cases answer) (simp_all add: one_query_ok one_query_failed)
qed

lemma getAllProperties_failed:
  assumes "getAllProperties_request mul options limit_arg = (q, vs)"
    and "exec (db s) q vs = (Inl err, d)"
  shows "getAllProperties mul exec options limit_arg s
         = (Resolved JUndefined, after_failure err d q vs s)"
  using assms by (simp add: getAllProperties_def one_query_failed)

lemma addProperty_failed:
  assumes "addProperty_request property = (q, vs)"
    and "exec (db s) q vs = (Inl err, d)"
  shows "addProperty exec property s = (Resolved JUndefined, after_failure err d q vs s)"
  using assms by (simp add: addProperty_def one_query_failed)

lemma statements_differ:
  "getUserWithId_query \<noteq> getUserWithEmail_query"
  "getUserWithId_query \<noteq> queryStringGet"
  "getUserWithEmail_query \<noteq> queryStringGet"
  "queryStringGet \<noteq> getUserWithEmail_query"
  "addUser_query \<noteq> getUserWithEmail_query"
  "addUser_query \<noteq> queryStringGet"
  "addUser_query \<noteq> getUserWithId_query"
  "queryStringAdd \<noteq> getUserWithEmail_query"
  "queryStringAdd \<noteq> queryStringGet"
  "queryStringAdd \<noteq> getUserWithId_query"
  "queryStringAdd \<noteq> addUser_query"
  by (simp_all add: getUserWithId_query_def getUserWithEmail_query_def queryStringGet_def
      addUser_query_def queryStringAdd_def)

section \<open>Failures of the database\<close>

text \<open>
  C2.  In each of the six exported functions of \<^verbatim>\<open>part_001\<close>, when the database answers
  the query with an error, the error's message is written to the console and the promise
  resolves to \<^verbatim>\<open>undefined\<close>; and whatever the database answers, the promise is never
  rejected.
\<close>

theorem database_failure_logged_not_rejected:
  "(exec (db s) getUserWithEmail_query [email] = (Inl err, d) \<longrightarrow>
      getUserWithEmail exec email s
        = (Resolved JUndefined, after_failure err d getUserWithEmail_query [email] s))
   \<and> (exec (db s) getUserWithId_query [uid] = (Inl err, d) \<longrightarrow>
      getUserWithId exec uid s
        = (Resolved JUndefined, after_failure err d getUserWithId_query [uid] s))
   \<and> (exec (db s) addUser_query
          [get_prop user ''name'', get_prop user ''email'', get_prop user ''password'']
        = (Inl err, d) \<longrightarrow>
      addUser exec user s
        = (Resolved JUndefined,
           after_failure err d addUser_query
             [get_prop user ''name'', get_prop user ''email'', get_prop user ''password''] s))
   \<and> (exec (db s) getAllReservations_query [guest_id, default_arg (JNum 10) limit_arg]
        = (Inl err, d) \<longrightarrow>
      getAllReservations exec guest_id limit_arg s
        = (Resolved JUndefined,
           after_failure err d getAllReservations_query
             [guest_id, default_arg (JNum 10) limit_arg] s))
   \<and> (getAllProperties_request mul options limit_arg = (q, vs) \<and> exec (db s) q vs = (Inl err, d) \<longrightarrow>
      getAllProperties mul exec options limit_arg s
        = (Resolved JUndefined, after_failure err d q vs s))
   \<and> (addProperty_request property = (q', vs') \<and> exec (db s) q' vs' = (Inl err, d) \<longrightarrow>
      addProperty exec property s = (Resolved JUndefined, after_failure err d q' vs' s))
   \<and> (\<forall>e. fst (getUserWithEmail exec email s) \<noteq> Rejected e
          \<and> fst (getUserWithId exec uid s) \<noteq> Rejected e
          \<and> fst (addUser exec user s) \<noteq> Rejected e
          \<and> fst (getAllReservations exec guest_id limit_arg s) \<noteq> Rejected e
          \<and> fst (getAllProperties mul exec options limit_arg s) \<noteq> Rejected e
          \<and> fst (addProperty exec property s) \<noteq> Rejected e)"
proof -
  have a: "exec (db s) getUserWithEmail_query [email] = (Inl err, d) \<longrightarrow>
      getUserWithEmail exec email s
        = (Resolved JUndefined, after_failure err d getUserWithEmail_query [email] s)"
    by (simp add: getUserWithEmail_def one_query_failed)
  have b: "exec (db s) getUserWithId_query [uid] = (Inl err, d) \<longrightarrow>
      getUserWithId exec uid s
        = (Resolved JUndefined, after_failure err d getUserWithId_query [uid] s)"
    by (simp add: getUserWithId_def one_query_failed)
  have c: "exec (db s) addUser_query
          [get_prop user ''name'', get_prop user ''email'', get_prop user ''password'']
        = (Inl err, d) \<longrightarrow>
      addUser exec user s
        = (Resolved JUndefined,
           after_failure err d addUser_query
             [get_prop user ''name'', get_prop user ''email'', get_prop user ''password''] s)"
    by (simp add: addUser_def one_query_failed)
  have r: "exec (db s) getAllReservations_query [guest_id, default_arg (JNum 10) limit_arg]
        = (Inl err, d) \<longrightarrow>
      getAllReservations exec guest_id limit_arg s
        = (Resolved JUndefined,
           after_failure err d getAllReservations_query
             [guest_id, default_arg (JNum 10) limit_arg] s)"
    by (simp add: getAllReservations_def one_query_failed)
  have p: "getAllProperties_request mul options limit_arg = (q, vs) \<and> exec (db s) q vs = (Inl err, d) \<longrightarrow>
      getAllProperties mul exec options limit_arg s
        = (Resolved JUndefined, after_failure err d q vs s)"
    by (simp add: getAllProperties_failed)
  have ap: "addProperty_request property = (q', vs') \<and> exec (db s) q' vs' = (Inl err, d) \<longrightarrow>
      addProperty exec property s = (Resolved JUndefined, after_failure err d q' vs' s)"
    by (simp add: addProperty_failed)
  have n1: "fst (getUserWithEmail exec email s) \<noteq> Rejected e" for e
    by (simp add: getUserWithEmail_def one_query_settles)
  have n2: "fst (getUserWithId exec uid s) \<noteq> Rejected e" for e
    by (simp add: getUserWithId_def one_query_settles)
  have n3: "fst (addUser exec user s) \<noteq> Rejected e" for e
    by (simp add: addUser_def one_query_settles)
  have n4: "fst (getAllReservations exec guest_id limit_arg s) \<noteq> Rejected e" for e
    by (simp add: getAllReservations_def one_query_settles)
  have n5: "fst (getAllProperties mul exec options limit_arg s) \<noteq> Rejected e" for e
    by (cases "getAllProperties_request mul options limit_arg")
       (simp add: getAllProperties_def one_query_settles)
  have n6: "fst (addProperty exec property s) \<noteq> Rejected e" for e
    by (cases "addProperty_request property") (simp add: addProperty_def one_query_settles)
  from a b c r p ap n1 n2 n3 n4 n5 n6 show ?thesis by blast
qed

theorem database_failure_logged_not_rejected_witness:
  "refusing_server (db down0) getUserWithEmail_query [JStr ''alice@example.com'']
     = (Inl (Error ''connection refused''), ())
   \<and> getUserWithEmail refusing_server (JStr ''alice@example.com'') down0
     = (Resolved JUndefined,
        down0\<lparr>roundtrips := [(getUserWithEmail_query, [JStr ''alice@example.com''])],
              console := [''connection refused'']\<rparr>)
   \<and> getUserWithId refusing_server (JNum 1) down0
     = (Resolved JUndefined,
        down0\<lparr>roundtrips := [(getUserWithId_query, [JNum 1])],
              console := [''connection refused'']\<rparr>)
   \<and> fst (addUser refusing_server bob down0) = Resolved JUndefined
   \<and> console (snd (addUser refusing_server bob down0)) = [''connection refused'']
   \<and> fst (getAllReservations refusing_server (JNum 1) JUndefined down0) = Resolved JUndefined
   \<and> console (snd (getAllReservations refusing_server (JNum 1) JUndefined down0))
     = [''connection refused'']
   \<and> fst (getAllProperties integer_times refusing_server [(''city'', JStr ''Vancouver'')]
            JUndefined down0)
     = Resolved JUndefined
   \<and> console (snd (getAllProperties integer_times refusing_server [(''city'', JStr ''Vancouver'')]
                     JUndefined down0))
     = [''connection refused'']
   \<and> fst (addProperty refusing_server listing down0) = Resolved JUndefined
   \<and> console (snd (addProperty refusing_server listing down0)) = [''connection refused'']"
  using database_failure_logged_not_rejected
    [where exec = refusing_server and s = down0 and err = "Error ''connection refused''"
       and d = "()" and email = "JStr ''alice@example.com''" and uid = "JNum 1" and user = bob
       and guest_id = "JNum 1" and limit_arg = JUndefined and mul = integer_times
       and options = "[(''city'', JStr ''Vancouver'')]"
       and q = "fst (getAllProperties_request integer_times [(''city'', JStr ''Vancouver'')]
                       JUndefined)"
       and vs = "snd (getAllProperties_request integer_times [(''city'', JStr ''Vancouver'')]
                        JUndefined)"
       and property = listing
       and q' = "fst (addProperty_request listing)"
       and vs' = "snd (addProperty_request listing)"]
  by (simp add: refusing_server_def down0_def after_failure_def after_query_def)

section \<open>What the stand-in answers\<close>

lemma getUserWithEmail_tokens: "statement_tokens getUserWithEmail_query
  = [''SELECT'', ''*'', ''FROM'', ''users'', ''WHERE'', ''email'', ''='', ''$1'']"
  by (simp add: statement_tokens_def tokens_def getUserWithEmail_query_def is_space_def is_punct_def flush_def)

lemma getUserWithId_tokens: "statement_tokens getUserWithId_query
  = [''SELECT'', ''*'', ''FROM'', ''users'', ''WHERE'', ''id'', ''='', ''$1'']"
  by (simp add: statement_tokens_def tokens_def getUserWithId_query_def is_space_def is_punct_def flush_def)

lemma addUser_tokens: "statement_tokens addUser_query
  = [''INSERT'', ''INTO'', ''users'', ''('', ''name'', '','', ''email'', '','', ''password'', '')'',
     ''VALUES'', ''('', ''$1'', '','', ''$2'', '','', ''$3'', '')'', ''RETURNING'', ''*'']"
  by (simp add: statement_tokens_def tokens_def addUser_query_def is_space_def is_punct_def flush_def)

lemma queryStringGet_tokens: "statement_tokens queryStringGet
  = [''SELECT'', ''*'', ''FROM'', ''users'', ''WHERE'', ''email'', ''='', ''$1'']"
  by (simp add: statement_tokens_def tokens_def queryStringGet_def is_space_def is_punct_def flush_def)

lemma queryStringAdd_tokens: "statement_tokens queryStringAdd
  = [''INSERT'', ''INTO'', ''users'', ''('', ''name'', '','', ''email'', '','', ''password'', '')'',
     ''VALUES'', ''('', ''$1'', '','', ''$2'', '','', ''$3'', '')'']"
  by (simp add: statement_tokens_def tokens_def queryStringAdd_def is_space_def is_punct_def flush_def)


lemma first_parameter: "parameter (v # vs) ''$1'' = Some v"
  by (simp add: parameter_def placeholder_def)

lemma select_email:
  assumes "map_of d ''users'' = Some rows"
  shows "postgres tables_engine d getUserWithEmail_query [email]
         = (Inr (map JObj (filter (\<lambda>row. sql_equal (get_prop row ''email'') email) rows)), d)"
  using assms
  by (simp add: postgres_def getUserWithEmail_tokens limit_clause_def tables_engine_def parse_def first_parameter)

lemma select_id:
  assumes "map_of d ''users'' = Some rows"
  shows "postgres tables_engine d getUserWithId_query [uid]
         = (Inr (map JObj (filter (\<lambda>row. sql_equal (get_prop row ''id'') uid) rows)), d)"
  using assms
  by (simp add: postgres_def getUserWithId_tokens limit_clause_def tables_engine_def parse_def first_parameter)

lemma insert_returning:
  assumes "map_of d ''users'' = Some rows"
  shows "postgres tables_engine d addUser_query [n, e, p]
         = (Inr [JObj [(''id'', JNum (int (length rows) + 1)), (''name'', n), (''email'', e),
                       (''password'', p)]],
            store d ''users''
              (rows @ [[(''id'', JNum (int (length rows) + 1)), (''name'', n), (''email'', e),
                        (''password'', p)]]))"
  using assms
  by (simp add: postgres_def addUser_tokens limit_clause_def tables_engine_def parse_def parse_insert_def
      paren_list_def parameter_def placeholder_def Let_def)

lemma select_back_email:
  assumes "map_of d ''users'' = Some rows"
  shows "postgres tables_engine d queryStringGet [email]
         = (Inr (map JObj (filter (\<lambda>row. sql_equal (get_prop row ''email'') email) rows)), d)"
  using assms
  by (simp add: postgres_def queryStringGet_tokens limit_clause_def tables_engine_def parse_def first_parameter)

lemma insert_plain:
  assumes "map_of d ''users'' = Some rows"
  shows "postgres tables_engine d queryStringAdd [n, e, p]
         = (Inr [],
            store d ''users''
              (rows @ [[(''id'', JNum (int (length rows) + 1)), (''name'', n), (''email'', e),
                        (''password'', p)]]))"
  using assms
  by (simp add: postgres_def queryStringAdd_tokens limit_clause_def tables_engine_def parse_def parse_insert_def
      paren_list_def parameter_def placeholder_def Let_def)

lemma map_of_store:
  "map_of d t = Some rows \<Longrightarrow> map_of (store d t rows') t = Some rows'"
  by (induction d) (auto simp: store_def)





section \<open>The user lookups\<close>

text \<open>
  C6.  On a database with a \<^verbatim>\<open>users\<close> table, \<^verbatim>\<open>getUserWithEmail\<close> resolves to the first row
  of the table whose \<^verbatim>\<open>email\<close> is the given one, a single record, and to \<^verbatim>\<open>null\<close> when
  the table has no such row; \<^verbatim>\<open>getUserWithId\<close> does the same on \<^verbatim>\<open>id\<close>.
\<close>

theorem user_lookup_by_key:
  "map_of (db s) ''users'' = Some rows \<longrightarrow>
     getUserWithEmail (postgres tables_engine) email s
       = (Resolved (case filter (\<lambda>row. sql_equal (get_prop row ''email'') email) rows of
                      [] \<Rightarrow> JNull | row # others \<Rightarrow> JObj row),
          after_query (db s) getUserWithEmail_query [email] s)
     \<and> getUserWithId (postgres tables_engine) uid s
       = (Resolved (case filter (\<lambda>row. sql_equal (get_prop row ''id'') uid) rows of
                      [] \<Rightarrow> JNull | row # others \<Rightarrow> JObj row),
          after_query (db s) getUserWithId_query [uid] s)"
proof (intro impI conjI)
  assume users: "map_of (db s) ''users'' = Some rows"
  have "getUserWithEmail (postgres tables_engine) email s
       = (Resolved (if length (map JObj (filter (\<lambda>row. sql_equal (get_prop row ''email'') email) rows)) = 0
                    then JNull
                    else first_row (map JObj (filter (\<lambda>row. sql_equal (get_prop row ''email'') email) rows))),
          after_query (db s) getUserWithEmail_query [email] s)"
    unfolding getUserWithEmail_def
    by (rule one_query_ok) (rule select_email [OF users])
  then show "getUserWithEmail (postgres tables_engine) email s
       = (Resolved (case filter (\<lambda>row. sql_equal (get_prop row ''email'') email) rows of
                      [] \<Rightarrow> JNull | row # others \<Rightarrow> JObj row),
          after_query (db s) getUserWithEmail_query [email] s)"
    by (simp add: first_row_def split: list.splits)
  have "getUserWithId (postgres tables_engine) uid s
       = (Resolved (if length (map JObj (filter (\<lambda>row. sql_equal (get_prop row ''id'') uid) rows)) = 0
                    then JNull
                    else first_row (map JObj (filter (\<lambda>row. sql_equal (get_prop row ''id'') uid) rows))),
          after_query (db s) getUserWithId_query [uid] s)"
    unfolding getUserWithId_def
    by (rule one_query_ok) (rule select_id [OF users])
  then show "getUserWithId (postgres tables_engine) uid s
       = (Resolved (case filter (\<lambda>row. sql_equal (get_prop row ''id'') uid) rows of
                      [] \<Rightarrow> JNull | row # others \<Rightarrow> JObj row),
          after_query (db s) getUserWithId_query [uid] s)"
    by (simp add: first_row_def split: list.splits)
qed

theorem user_lookup_by_key_witness:
  "map_of (db lightbnb0) ''users'' = Some [alice_row, carol_row]
   \<and> fst (getUserWithEmail (postgres tables_engine) (JStr ''carol@example.com'') lightbnb0)
     = Resolved (JObj carol_row)
   \<and> fst (getUserWithId (postgres tables_engine) (JNum 1) lightbnb0) = Resolved (JObj alice_row)
   \<and> fst (getUserWithEmail (postgres tables_engine) (JStr ''dave@example.com'') lightbnb0)
     = Resolved JNull
   \<and> fst (getUserWithId (postgres tables_engine) (JNum 3) lightbnb0) = Resolved JNull"
  using user_lookup_by_key
      [where s = lightbnb0 and rows = "[alice_row, carol_row]"
         and email = "JStr ''carol@example.com''" and uid = "JNum 1"]
    user_lookup_by_key
      [where s = lightbnb0 and rows = "[alice_row, carol_row]"
         and email = "JStr ''dave@example.com''" and uid = "JNum 3"]
  by (simp add: lightbnb0_def alice_row_def carol_row_def sql_equal_def get_prop_def)

section \<open>Adding a user\<close>

lemma select_back_ok:
  assumes "exec (db s) queryStringAdd vsa = (Inr ack, d)"
    and "exec d queryStringGet vsg = (Inr rows, d')"
  shows "promise_catch log_error
           (promise_then
              (\<lambda>result s'.
                 promise_catch log_error
                   (promise_then (\<lambda>newUser s''. (Resolved (first_row newUser), s''))
                      (pool_query exec queryStringGet vsg s')))
              (pool_query exec queryStringAdd vsa s))
         = (Resolved (first_row rows),
            after_query d' queryStringGet vsg (after_query d queryStringAdd vsa s))"
  using assms
  by (simp add: pool_query_def promise_then_def promise_catch_def after_query_def)

text \<open>
  \<^verbatim>\<open>addUser\<close> of \<^verbatim>\<open>part_001\<close> adds a row with the user's name, email and password to the
  \<^verbatim>\<open>users\<close> table and resolves to that row as stored, with the \<^verbatim>\<open>id\<close> the database gave
  it.
\<close>

lemma addUser_returning_stored_row:
  assumes users: "map_of (db s) ''users'' = Some rows"
  shows "addUser (postgres tables_engine) user s
         = (Resolved (JObj [(''id'', JNum (int (length rows) + 1)),
                            (''name'', get_prop user ''name''),
                            (''email'', get_prop user ''email''),
                            (''password'', get_prop user ''password'')]),
            after_query
              (store (db s) ''users''
                 (rows @ [[(''id'', JNum (int (length rows) + 1)),
                           (''name'', get_prop user ''name''),
                           (''email'', get_prop user ''email''),
                           (''password'', get_prop user ''password'')]]))
              addUser_query
              [get_prop user ''name'', get_prop user ''email'', get_prop user ''password''] s)"
proof -
  have "addUser (postgres tables_engine) user s
        = (Resolved (first_row [JObj [(''id'', JNum (int (length rows) + 1)),
                            (''name'', get_prop user ''name''),
                            (''email'', get_prop user ''email''),
                            (''password'', get_prop user ''password'')]]),
            after_query
              (store (db s) ''users''
                 (rows @ [[(''id'', JNum (int (length rows) + 1)),
                           (''name'', get_prop user ''name''),
                           (''email'', get_prop user ''email''),
                           (''password'', get_prop user ''password'')]]))
              addUser_query
              [get_prop user ''name'', get_prop user ''email'', get_prop user ''password''] s)"
    unfolding addUser_def Let_def
    by (rule one_query_ok) (rule insert_returning [OF users])
  then show ?thesis by (simp add: first_row_def)
qed

text \<open>
  C5.  \<^verbatim>\<open>addUser\<close> of \<^verbatim>\<open>database.js\<close> and \<^verbatim>\<open>part_000\<close> reads the new row back by its
  email.  When Eve signs up under the email Alice already has, the row stored is Eve's,
  with \<^verbatim>\<open>id\<close> 3, but the promise resolves to Alice's row; \<^verbatim>\<open>addUser\<close> of \<^verbatim>\<open>part_001\<close>
  resolves to Eve's.
\<close>

theorem select_back_returns_older_row:
  "fst (addUser_select_back (postgres tables_engine) eve lightbnb0) = Resolved (JObj alice_row)
   \<and> db (snd (addUser_select_back (postgres tables_engine) eve lightbnb0))
     = [(''users'',
         [alice_row, carol_row,
          [(''id'', JNum 3), (''name'', JStr ''Eve''), (''email'', JStr ''alice@example.com''),
           (''password'', JStr ''guess'')]])]
   \<and> fst (addUser (postgres tables_engine) eve lightbnb0)
     = Resolved (JObj [(''id'', JNum 3), (''name'', JStr ''Eve''),
                       (''email'', JStr ''alice@example.com''), (''password'', JStr ''guess'')])"
proof -
  have users: "map_of (db lightbnb0) ''users'' = Some [alice_row, carol_row]"
    by (simp add: lightbnb0_def)
  have eve_values: "[get_prop eve ''name'', get_prop eve ''email'', get_prop eve ''password'']
      = [JStr ''Eve'', JStr ''alice@example.com'', JStr ''guess'']"
    by (simp add: eve_def get_prop_def)
  have "postgres tables_engine (db lightbnb0) queryStringAdd
        [JStr ''Eve'', JStr ''alice@example.com'', JStr ''guess'']
      = (Inr [], store (db lightbnb0) ''users''
           ([alice_row, carol_row]
            @ [[(''id'', JNum (int (length [alice_row, carol_row]) + 1)), (''name'', JStr ''Eve''),
                (''email'', JStr ''alice@example.com''), (''password'', JStr ''guess'')]]))"
    by (rule insert_plain [OF users])
  then have ins: "postgres tables_engine (db lightbnb0) queryStringAdd
        [get_prop eve ''name'', get_prop eve ''email'', get_prop eve ''password'']
      = (Inr [], [(''users'',
         [alice_row, carol_row,
          [(''id'', JNum 3), (''name'', JStr ''Eve''), (''email'', JStr ''alice@example.com''),
           (''password'', JStr ''guess'')]])])"
    by (simp add: eve_values store_def lightbnb0_def)
  have sel: "postgres tables_engine [(''users'',
         [alice_row, carol_row,
          [(''id'', JNum 3), (''name'', JStr ''Eve''), (''email'', JStr ''alice@example.com''),
           (''password'', JStr ''guess'')]])] queryStringGet [get_prop eve ''email'']
      = (Inr [JObj alice_row, JObj [(''id'', JNum 3), (''name'', JStr ''Eve''), (''email'', JStr ''alice@example.com''),
           (''password'', JStr ''guess'')]],
         [(''users'',
         [alice_row, carol_row,
          [(''id'', JNum 3), (''name'', JStr ''Eve''), (''email'', JStr ''alice@example.com''),
           (''password'', JStr ''guess'')]])])"
    by (subst select_back_email [where rows = "[alice_row, carol_row,
          [(''id'', JNum 3), (''name'', JStr ''Eve''), (''email'', JStr ''alice@example.com''),
           (''password'', JStr ''guess'')]]"])
       (simp_all add: eve_def get_prop_def alice_row_def carol_row_def sql_equal_def)
  have "addUser_select_back (postgres tables_engine) eve lightbnb0
      = (Resolved (first_row [JObj alice_row, JObj [(''id'', JNum 3), (''name'', JStr ''Eve''), (''email'', JStr ''alice@example.com''),
           (''password'', JStr ''guess'')]]),
         after_query [(''users'',
         [alice_row, carol_row,
          [(''id'', JNum 3), (''name'', JStr ''Eve''), (''email'', JStr ''alice@example.com''),
           (''password'', JStr ''guess'')]])] queryStringGet [get_prop eve ''email'']
           (after_query [(''users'',
         [alice_row, carol_row,
          [(''id'', JNum 3), (''name'', JStr ''Eve''), (''email'', JStr ''alice@example.com''),
           (''password'', JStr ''guess'')]])] queryStringAdd
              [get_prop eve ''name'', get_prop eve ''email'', get_prop eve ''password''] lightbnb0))"
    unfolding addUser_select_back_def Let_def
    by (rule select_back_ok [OF ins sel])
  moreover have "fst (addUser (postgres tables_engine) eve lightbnb0)
     = Resolved (JObj [(''id'', JNum 3), (''name'', JStr ''Eve''),
                       (''email'', JStr ''alice@example.com''), (''password'', JStr ''guess'')])"
    by (simp add: addUser_returning_stored_row [OF users] eve_def get_prop_def)
  ultimately show ?thesis by (simp add: first_row_def after_query_def)
qed

section \<open>Adding a property\<close>

lemma length_blank_to_zero [simp]: "length (blank_to_zero i vals) = length vals"
  by (simp add: blank_to_zero_def)

lemma nth_blank_to_zero:
  "j < length vals \<Longrightarrow>
   blank_to_zero i vals ! j = (if j = i \<and> vals ! j = JStr [] then JStr ''0'' else vals ! j)"
  by (auto simp: blank_to_zero_def nth_list_update)

lemma nth_patched:
  assumes "j < length vals"
  shows "blank_to_zero 5 (blank_to_zero 4 (blank_to_zero 3 (blank_to_zero 2 vals))) ! j
         = (if j \<in> {2, 3, 4, 5} \<and> vals ! j = JStr [] then JStr ''0'' else vals ! j)"
  using assms by (auto simp: nth_blank_to_zero)

lemma addProperty_sends:
  "roundtrips (snd (addProperty exec property s))
   = roundtrips s @ [addProperty_request property]"
proof (cases "addProperty_request property")
  case (Pair q vs)
  show ?thesis
  proof (cases "exec (db s) q vs")
    case (Pair answer d)
    then show ?thesis using \<open>addProperty_request property = (q, vs)\<close>
      by (cases answer)
         (simp_all add: addProperty_def one_query_ok one_query_failed after_query_def
            after_failure_def)
  qed
qed

text \<open>
  C7.  \<^verbatim>\<open>addProperty\<close> of \<^verbatim>\<open>part_001\<close> sends one \<^verbatim>\<open>INSERT\<close> whose parameters are the
  property's values in order, except that a value at position 2, 3, 4 or 5 that is the
  empty string is replaced by \<^verbatim>\<open>'0'\<close>; every other value is bound as it is.  When the
  property lists its fields in the documented order, these positions are
  \<^verbatim>\<open>number_of_bedrooms\<close>, \<^verbatim>\<open>number_of_bathrooms\<close>, \<^verbatim>\<open>parking_spaces\<close> and
  \<^verbatim>\<open>cost_per_night\<close>.
\<close>

theorem addProperty_patches_blank_numbers_only:
  "roundtrips (snd (addProperty exec property s))
     = roundtrips s @ [addProperty_request property]
   \<and> fst (addProperty_request property)
     = addProperty_insert @ join '','' (object_keys property) @ addProperty_values
   \<and> length (snd (addProperty_request property)) = length (object_values property)
   \<and> (\<forall>j < length (object_values property).
        snd (addProperty_request property) ! j
        = (if j \<in> {2, 3, 4, 5} \<and> object_values property ! j = JStr []
           then JStr ''0'' else object_values property ! j))
   \<and> (object_keys property = documented_columns \<longrightarrow>
        snd (addProperty_request property)
        = map (\<lambda>(column, v). if column \<in> set numeric_columns \<and> v = JStr [] then JStr ''0'' else v)
            property)"
proof (intro conjI allI impI)
  show "roundtrips (snd (addProperty exec property s))
     = roundtrips s @ [addProperty_request property]"
    by (rule addProperty_sends)
  show "fst (addProperty_request property)
     = addProperty_insert @ join '','' (object_keys property) @ addProperty_values"
    by (simp add: addProperty_request_def)
  show "length (snd (addProperty_request property)) = length (object_values property)"
    by (simp add: addProperty_request_def)
  show "snd (addProperty_request property) ! j
        = (if j \<in> {2, 3, 4, 5} \<and> object_values property ! j = JStr []
           then JStr ''0'' else object_values property ! j)"
    if "j < length (object_values property)" for j
    using that by (simp only: addProperty_request_def snd_conv nth_patched)
  show "snd (addProperty_request property)
        = map (\<lambda>(column, v). if column \<in> set numeric_columns \<and> v = JStr [] then JStr ''0'' else v)
            property"
    if keys: "object_keys property = documented_columns"
  proof (rule nth_equalityI)
    show "length (snd (addProperty_request property)) = length (map (\<lambda>(column, v). if column \<in> set numeric_columns \<and> v = JStr [] then JStr ''0'' else v) property)"
      by (simp add: addProperty_request_def object_values_def)
  next
    fix j assume "j < length (snd (addProperty_request property))"
    then have j: "j < length property" by (simp add: addProperty_request_def object_values_def)
    have len: "length property = 14"
      using keys by (simp add: object_keys_def documented_columns_def flip: length_map [of fst property])
    have k: "fst (property ! j) = documented_columns ! j"
      using keys j by (metis nth_map object_keys_def)
    have v: "object_values property ! j = snd (property ! j)"
      using j by (simp add: object_values_def)
    have "j < 14" using j len by simp
    then have "j \<in> {0, 1, 2, 3, 4, 5, 6, 7, 8, 9, 10, 11, 12, 13}" by simp arith
    then have pos: "(j \<in> {2, 3, 4, 5}) = (documented_columns ! j \<in> set numeric_columns)"
      by (auto simp: documented_columns_def numeric_columns_def)
    show "snd (addProperty_request property) ! j = map (\<lambda>(column, v). if column \<in> set numeric_columns \<and> v = JStr [] then JStr ''0'' else v) property ! j"
      using j k v pos
      by (simp add: addProperty_request_def nth_patched object_values_def case_prod_beta)
  qed
qed

theorem addProperty_patches_blank_numbers_only_witness:
  "object_keys listing = documented_columns
   \<and> (2::nat) < length (object_values listing)
   \<and> snd (addProperty_request listing) ! 2 = JStr ''0''
   \<and> snd (addProperty_request listing)
     = [JStr [], JStr ''Quiet'', JStr ''0'', JStr ''2'', JStr ''0'', JStr ''9300'', JStr [], JStr [],
        JStr ''1 Main St'', JStr ''Canada'', JStr ''Vancouver'', JStr ''BC'', JStr [], JNum 1]"
  using addProperty_patches_blank_numbers_only
      [where exec = refusing_server and property = listing and s = down0]
  by (simp add: listing_def object_keys_def object_values_def documented_columns_def
      numeric_columns_def)

section \<open>The limit of a property search\<close>













section \<open>The filters of a property search\<close>

lemma filter_body_eq:
  "filter_body mul options key (vals, whereClause, count) =
     (if get_prop options key = JStr [] then (vals, whereClause, count)
      else if key \<in> set filter_names
        then (vals @ [bound_value mul options key], whereClause @ [condition key count], count + 1)
      else (vals, whereClause, count + 1))"
  by (simp add: filter_body_def push_when_def filter_names_def bound_value_def condition_def)

lemma filter_loop_eq:
  "filter_loop mul options keys (vals, whereClause, count) =
     (vals @ map (\<lambda>p. bound_value mul options (fst p)) (filters_of options keys count),
      whereClause @ map (\<lambda>p. condition (fst p) (snd p)) (filters_of options keys count),
      count + length (numbered options keys count))"
proof (induction keys arbitrary: vals whereClause count)
  case Nil
  show ?case by (simp add: filters_of_def)
next
  case (Cons key keys)
  show ?case
    by (simp add: filter_body_eq Cons.IH filters_of_def)
qed

lemma numbered_keys:
  "map fst (numbered options keys n) = filter (\<lambda>key. get_prop options key \<noteq> JStr []) keys"
  by (induction keys arbitrary: n) simp_all

lemma numbered_counts:
  "map snd (numbered options keys n) = [n ..< n + length (numbered options keys n)]"
proof (induction keys arbitrary: n)
  case Nil
  show ?case by simp
next
  case (Cons key keys)
  show ?case
  proof (cases "get_prop options key = JStr []")
    case True
    then show ?thesis using Cons.IH [of n] by simp
  next
    case False
    have "[n ..< n + Suc (length (numbered options keys (Suc n)))]
          = n # [Suc n ..< Suc n + length (numbered options keys (Suc n))]"
      by (simp add: upt_rec)
    with False show ?thesis using Cons.IH [of "Suc n"] by simp
  qed
qed

lemma filters_of_keys:
  "map fst (filters_of options keys n)
   = filter (\<lambda>key. key \<in> set filter_names \<and> get_prop options key \<noteq> JStr []) keys"
proof -
  have "map fst (filters_of options keys n)
        = filter (\<lambda>key. key \<in> set filter_names) (map fst (numbered options keys n))"
    by (simp add: filters_of_def filter_map comp_def)
  then show ?thesis by (simp add: numbered_keys conj_commute)
qed

lemma condition_key:
  assumes "condition key i = condition key' j"
    and "key \<in> set filter_names" and "key' \<in> set filter_names"
  shows "key = key'"
  using assms by (auto simp: condition_def filter_names_def split: if_splits)

lemma bound_values:
  "snd (getAllProperties_request mul options limit_arg)
   = default_arg (JNum 10) limit_arg
     # map (bound_value mul options)
         (filter (\<lambda>key. key \<in> set filter_names \<and> get_prop options key \<noteq> JStr [])
            (object_keys options))"
proof -
  have "map (\<lambda>p. bound_value mul options (fst p)) (filters_of options (object_keys options) 2)
        = map (bound_value mul options) (map fst (filters_of options (object_keys options) 2))"
    by (simp add: comp_def)
  then show ?thesis
    by (simp add: getAllProperties_request_def filter_loop_eq filters_of_keys)
qed

lemma where_conditions:
  "fst (getAllProperties_request mul options limit_arg)
   = getAllProperties_select
     @ whereString_of (map (\<lambda>p. condition (fst p) (snd p)) (filters_of options (object_keys options) 2))
     @ getAllProperties_group_limit"
  by (simp add: getAllProperties_request_def filter_loop_eq)

lemma filter_supplied:
  assumes "key \<in> set filter_names"
  shows "(\<exists>i. condition key i
            \<in> set (map (\<lambda>p. condition (fst p) (snd p)) (filters_of options (object_keys options) 2)))
         = supplied options key"
proof
  assume "\<exists>i. condition key i
            \<in> set (map (\<lambda>p. condition (fst p) (snd p)) (filters_of options (object_keys options) 2))"
  then obtain i key' j where in_f: "(key', j) \<in> set (filters_of options (object_keys options) 2)"
    and eq: "condition key i = condition key' j"
    by auto
  from in_f have "key' \<in> set (map fst (filters_of options (object_keys options) 2))"
    by force
  then have k': "key' \<in> set filter_names \<and> key' \<in> set (object_keys options)
      \<and> get_prop options key' \<noteq> JStr []"
    by (simp add: filters_of_keys)
  with eq assms have "key = key'" using condition_key by blast
  with k' show "supplied options key" by (simp add: supplied_def)
next
  assume "supplied options key"
  with assms have "key \<in> set (map fst (filters_of options (object_keys options) 2))"
    by (simp add: filters_of_keys supplied_def)
  then obtain i where "(key, i) \<in> set (filters_of options (object_keys options) 2)"
    by auto
  then have "condition key i
      \<in> set (map (\<lambda>p. condition (fst p) (snd p)) (filters_of options (object_keys options) 2))"
    by force
  then show "\<exists>i. condition key i
            \<in> set (map (\<lambda>p. condition (fst p) (snd p)) (filters_of options (object_keys options) 2))"
    by blast
qed

lemma no_filter_no_where:
  "(whereString_of (map (\<lambda>p. condition (fst p) (snd p)) (filters_of options (object_keys options) 2)) = [])
   = (\<forall>key \<in> set filter_names. \<not> supplied options key)"
proof -
  have "(filters_of options (object_keys options) 2 = [])
        = (map fst (filters_of options (object_keys options) 2) = [])"
    by simp
  also have "\<dots> = (\<forall>key \<in> set filter_names. \<not> supplied options key)"
    by (auto simp: filters_of_keys supplied_def filter_empty_conv)
  finally show ?thesis by (simp add: whereString_of_def)
qed

lemma placeholders_aligned:
  assumes only: "\<forall>key \<in> set (object_keys options).
                   get_prop options key \<noteq> JStr [] \<longrightarrow> key \<in> set filter_names"
    and i: "i < length (filters_of options (object_keys options) 2)"
  shows "snd (filters_of options (object_keys options) 2 ! i) = i + 2"
proof -
  have "\<forall>p \<in> set (numbered options (object_keys options) 2). fst p \<in> set filter_names"
  proof
    fix p assume "p \<in> set (numbered options (object_keys options) 2)"
    then have "fst p \<in> set (map fst (numbered options (object_keys options) 2))" by simp
    then show "fst p \<in> set filter_names" using only by (simp add: numbered_keys)
  qed
  then have same: "filters_of options (object_keys options) 2
      = numbered options (object_keys options) 2"
    by (simp add: filters_of_def)
  have "snd (numbered options (object_keys options) 2 ! i)
        = map snd (numbered options (object_keys options) 2) ! i"
    using i same by simp
  also have "\<dots> = [2 ..< 2 + length (numbered options (object_keys options) 2)] ! i"
    by (simp only: numbered_counts [of options "object_keys options" 2])
  also have "\<dots> = 2 + i"
  proof (rule nth_upt)
    show "2 + i < 2 + length (numbered options (object_keys options) 2)"
      using i same by simp
  qed
  finally show ?thesis using same by simp
qed

text \<open>
  In \<^verbatim>\<open>part_000\<close> and \<^verbatim>\<open>part_001\<close> the statement carries one condition for each filter
  field that is supplied and for no other, joined by \<^verbatim>\<open>AND\<close> after \<^verbatim>\<open>WHERE\<close>, and no
  \<^verbatim>\<open>WHERE\<close> when no filter field is supplied.
\<close>

lemma join_conditions:
  "whereString_of (c # cs) = ''WHERE '' @ join '' AND '' (c # cs) @ '' ''"
  by (simp add: whereString_of_def)

lemma filters_conjunctive:
  "fst (getAllProperties_request mul options limit_arg)
     = getAllProperties_select
       @ whereString_of
           (map (\<lambda>p. condition (fst p) (snd p)) (filters_of options (object_keys options) 2))
       @ getAllProperties_group_limit
   \<and> (\<forall>key \<in> set filter_names.
        (\<exists>i. condition key i
           \<in> set (map (\<lambda>p. condition (fst p) (snd p))
                    (filters_of options (object_keys options) 2)))
        = supplied options key)
   \<and> map fst (filters_of options (object_keys options) 2)
     = filter (\<lambda>key. key \<in> set filter_names \<and> get_prop options key \<noteq> JStr [])
         (object_keys options)
   \<and> ((whereString_of
          (map (\<lambda>p. condition (fst p) (snd p)) (filters_of options (object_keys options) 2)) = [])
       = (\<forall>key \<in> set filter_names. \<not> supplied options key))"
  using where_conditions filter_supplied filters_of_keys no_filter_no_where by blast

lemma city_request:
  "getAllProperties_request mul [(''city'', JStr ''Vancouver'')] (JNum 10)
   = (getAllProperties_select @ ''WHERE properties.city = $2 '' @ getAllProperties_group_limit,
      [JNum 10, JStr ''Vancouver''])"
  by (simp add: getAllProperties_request_def default_arg_def object_keys_def filter_body_def
      push_when_def get_prop_def whereString_of_def string_of_nat.simps digit_def)

text \<open>
  C1.  \<^verbatim>\<open>getAllProperties\<close> of \<^verbatim>\<open>database.js\<close> does not read \<^verbatim>\<open>options\<close>: called with a
  city it sends \<^verbatim>\<open>SELECT * FROM properties LIMIT $1\<close> with the limit alone, no \<^verbatim>\<open>WHERE\<close>
  clause, and resolves to the rows of the whole table.
\<close>

theorem unfiltered_search_ignores_options:
  "getAllProperties_unfiltered limiting_server (JObj [(''city'', JStr ''Vancouver'')]) (JNum 10)
     listings0
   = (Resolved (JArr [JObj [(''id'', JNum 1)], JObj [(''id'', JNum 2)], JObj [(''id'', JNum 3)]]),
      listings0\<lparr>roundtrips := [(getAllProperties_unfiltered_query, [JNum 10])]\<rparr>)"
  by (simp add: getAllProperties_unfiltered_def default_arg_def
      pool_query_def promise_then_def promise_catch_def limiting_server_def listings0_def
      Let_def)

text \<open>
  When only filter fields have a value other than the empty string, the condition pushed
  for the \<open>i\<close>-th of them names the parameter \<open>i + 2\<close>, which is the value pushed with it:
  the supplied value times 100 for the two prices, the supplied value for \<^verbatim>\<open>city\<close> and
  \<^verbatim>\<open>minimum_rating\<close>.
\<close>

lemma bound_values_aligned:
  assumes "\<forall>key \<in> set (object_keys options).
             get_prop options key \<noteq> JStr [] \<longrightarrow> key \<in> set filter_names"
    and "i < length (filters_of options (object_keys options) 2)"
  shows "map (\<lambda>p. condition (fst p) (snd p)) (filters_of options (object_keys options) 2) ! i
           = condition (fst (filters_of options (object_keys options) 2 ! i)) (i + 2)
         \<and> snd (getAllProperties_request mul options limit_arg) ! (i + 1)
           = bound_value mul options (fst (filters_of options (object_keys options) 2 ! i))"
proof -
  have "snd (getAllProperties_request mul options limit_arg)
        = default_arg (JNum 10) limit_arg
          # map (\<lambda>p. bound_value mul options (fst p)) (filters_of options (object_keys options) 2)"
    by (simp add: getAllProperties_request_def filter_loop_eq)
  then show ?thesis using assms placeholders_aligned [OF assms] by simp
qed

lemma price_bounds_numbered:
  "getAllProperties_request integer_times
     [(''minimum_price_per_night'', JStr ''50''),
      (''maximum_price_per_night'', JStr ''200'')] JUndefined
   = (getAllProperties_select
        @ ''WHERE properties.cost_per_night >= $2 AND properties.cost_per_night <= $3 ''
        @ getAllProperties_group_limit,
      [JNum 10, JNum 5000, JNum 20000])"
  by (simp add: getAllProperties_request_def default_arg_def object_keys_def filter_body_def
      push_when_def get_prop_def integer_times_def whereString_of_def string_of_nat.simps
      digit_def)

text \<open>
  C9.  \<^verbatim>\<open>count\<close> also advances on a key that is no filter field.  With \<^verbatim>\<open>owner_id\<close> ahead of
  the two prices, \<^verbatim>\<open>getAllProperties\<close> of \<^verbatim>\<open>part_001\<close> binds 5000 and 20000 as \<^verbatim>\<open>$2\<close> and
  \<^verbatim>\<open>$3\<close>, but compares \<^verbatim>\<open>cost_per_night\<close> against \<^verbatim>\<open>$3\<close> for the minimum and against
  \<^verbatim>\<open>$4\<close>, which has no value, for the maximum.
\<close>

theorem price_bounds_misnumbered:
  "getAllProperties_request integer_times
     [(''owner_id'', JStr ''7''), (''minimum_price_per_night'', JStr ''50''),
      (''maximum_price_per_night'', JStr ''200'')] JUndefined
   = (getAllProperties_select
        @ ''WHERE properties.cost_per_night >= $3 AND properties.cost_per_night <= $4 ''
        @ getAllProperties_group_limit,
      [JNum 10, JNum 5000, JNum 20000])"
  by (simp add: getAllProperties_request_def default_arg_def object_keys_def filter_body_def
      push_when_def get_prop_def integer_times_def whereString_of_def string_of_nat.simps
      digit_def)

section \<open>The reservations of a guest\<close>

lemma getAllReservations_ok:
  assumes "exec (db s) getAllReservations_query [guest_id, default_arg (JNum 10) limit_arg]
           = (Inr rows, d)"
  shows "getAllReservations exec guest_id limit_arg s
         = (Resolved (if rows = [] then JNull else JArr rows),
            after_query d getAllReservations_query [guest_id, default_arg (JNum 10) limit_arg] s)"
  using assms by (simp add: getAllReservations_def one_query_ok)

text \<open>
  C3.  \<^verbatim>\<open>getAllReservations\<close> of \<^verbatim>\<open>database.js\<close> ignores the guest and the limit: it sends
  \<^verbatim>\<open>SELECT * FROM properties LIMIT $1\<close> with 2 bound and resolves to two properties.
\<close>

theorem reservations_stub_returns_properties:
  "getAllReservations_stub limiting_server (JNum 1) (JNum 10) listings0
   = (Resolved (JArr [JObj [(''id'', JNum 1)], JObj [(''id'', JNum 2)]]),
      listings0\<lparr>roundtrips := [(getAllProperties_unfiltered_query, [JNum 2])]\<rparr>)"
  by (simp add: getAllReservations_stub_def getAllProperties_unfiltered_def default_arg_def
      pool_query_def promise_then_def promise_catch_def limiting_server_def listings0_def
      Let_def)

section \<open>Round trips\<close>

lemma one_query_sent:
  "roundtrips (snd (promise_catch log_error
      (promise_then (\<lambda>rows s'. (Resolved (h rows), s')) (pool_query exec q vs s))))
   = roundtrips s @ [(q, vs)]"
proof (cases "exec (db s) q vs")
  case (Pair answer d)
  then show ?thesis
    by (cases answer)
       (simp_all add: one_query_ok one_query_failed after_query_def after_failure_def)
qed

lemma then_resolved: "promise_then f (Resolved x, s) = f x s"
  by (simp add: promise_then_def)

lemma catch_settled:
  "promise_catch g (promise_catch log_error ps) = promise_catch log_error ps"
proof (cases ps)
  case (Pair p s)
  then show ?thesis
    by (cases p) (simp_all add: promise_catch_def log_error_def)
qed

lemma select_back_failed_insert:
  assumes "exec (db s) queryStringAdd vsa = (Inl err, d)"
  shows "promise_catch log_error
           (promise_then
              (\<lambda>result s'.
                 promise_catch log_error
                   (promise_then (\<lambda>newUser s''. (Resolved (first_row newUser), s''))
                      (pool_query exec queryStringGet vsg s')))
              (pool_query exec queryStringAdd vsa s))
         = (Resolved JUndefined, after_failure err d queryStringAdd vsa s)"
  using assms
  by (simp add: pool_query_def promise_then_def promise_catch_def log_error_def
      console_log_def after_query_def after_failure_def)

lemma select_back_sent:
  "roundtrips (snd (addUser_select_back exec user s))
   = roundtrips s
     @ (case fst (exec (db s) queryStringAdd
                   [get_prop user ''name'', get_prop user ''email'', get_prop user ''password''])
        of Inl err \<Rightarrow>
             [(queryStringAdd,
               [get_prop user ''name'', get_prop user ''email'', get_prop user ''password''])]
         | Inr result \<Rightarrow>
             [(queryStringAdd,
               [get_prop user ''name'', get_prop user ''email'', get_prop user ''password'']),
              (queryStringGet, [get_prop user ''email''])])"
proof (cases "exec (db s) queryStringAdd
                [get_prop user ''name'', get_prop user ''email'', get_prop user ''password'']")
  case (Pair answer d)
  show ?thesis
  proof (cases answer)
    case (Inl err)
    with Pair show ?thesis
      by (simp add: addUser_select_back_def select_back_failed_insert after_failure_def
          after_query_def)
  next
    case (Inr result)
    with Pair have pq: "pool_query exec queryStringAdd
          [get_prop user ''name'', get_prop user ''email'', get_prop user ''password''] s
        = (Resolved result,
           after_query d queryStringAdd
             [get_prop user ''name'', get_prop user ''email'', get_prop user ''password''] s)"
      by (simp add: pool_query_def after_query_def)
    have "addUser_select_back exec user s
        = promise_catch log_error
            (promise_then (\<lambda>newUser s''. (Resolved (first_row newUser), s''))
               (pool_query exec queryStringGet [get_prop user ''email'']
                  (after_query d queryStringAdd
                     [get_prop user ''name'', get_prop user ''email'', get_prop user ''password'']
                     s)))"
      unfolding addUser_select_back_def Let_def pq then_resolved catch_settled ..
    with Pair Inr show ?thesis by (simp add: one_query_sent after_query_def)
  qed
qed

text \<open>
  C4, as amended.  Every exported function of \<^verbatim>\<open>part_001\<close>, and \<^verbatim>\<open>getAllProperties\<close> and
  \<^verbatim>\<open>getAllReservations\<close> of \<^verbatim>\<open>database.js\<close>, send exactly one statement per call.
  \<^verbatim>\<open>addUser\<close> of \<^verbatim>\<open>database.js\<close> and \<^verbatim>\<open>part_000\<close> sends one statement when the
  \<^verbatim>\<open>INSERT\<close> fails and two, the \<^verbatim>\<open>INSERT\<close> and the \<^verbatim>\<open>SELECT\<close> by email, when it succeeds;
  \<^verbatim>\<open>addProperty\<close> of those files sends none.  The statements are fixed texts, but for the
  \<^verbatim>\<open>WHERE\<close> clause of \<^verbatim>\<open>getAllProperties\<close> and the column list of \<^verbatim>\<open>addProperty\<close>, which are
  concatenated into them.
\<close>

theorem round_trips_per_call:
  "roundtrips (snd (getUserWithEmail exec email s))
     = roundtrips s @ [(getUserWithEmail_query, [email])]
   \<and> roundtrips (snd (getUserWithId exec uid s))
     = roundtrips s @ [(getUserWithId_query, [uid])]
   \<and> roundtrips (snd (addUser exec user s))
     = roundtrips s
       @ [(addUser_query,
           [get_prop user ''name'', get_prop user ''email'', get_prop user ''password''])]
   \<and> roundtrips (snd (getAllReservations exec guest_id limit_arg s))
     = roundtrips s @ [(getAllReservations_query, [guest_id, default_arg (JNum 10) limit_arg])]
   \<and> roundtrips (snd (getAllProperties mul exec options limit_arg s))
     = roundtrips s @ [getAllProperties_request mul options limit_arg]
   \<and> roundtrips (snd (addProperty exec property s))
     = roundtrips s @ [addProperty_request property]
   \<and> roundtrips (snd (getAllProperties_unfiltered exec any_options limit_arg s))
     = roundtrips s @ [(getAllProperties_unfiltered_query, [default_arg (JNum 10) limit_arg])]
   \<and> roundtrips (snd (getAllReservations_stub exec guest_id limit_arg s))
     = roundtrips s @ [(getAllProperties_unfiltered_query, [JNum 2])]
   \<and> roundtrips (snd (addUser_select_back exec user s))
     = roundtrips s
       @ (case fst (exec (db s) queryStringAdd
                     [get_prop user ''name'', get_prop user ''email'', get_prop user ''password''])
          of Inl err \<Rightarrow>
               [(queryStringAdd,
                 [get_prop user ''name'', get_prop user ''email'', get_prop user ''password''])]
           | Inr result \<Rightarrow>
               [(queryStringAdd,
                 [get_prop user ''name'', get_prop user ''email'', get_prop user ''password'']),
                (queryStringGet, [get_prop user ''email''])])
   \<and> roundtrips (snd (addProperty_in_memory property_ref s)) = roundtrips s
   \<and> fst (getAllProperties_request mul options limit_arg)
     = getAllProperties_select
       @ whereString_of
           (map (\<lambda>p. condition (fst p) (snd p)) (filters_of options (object_keys options) 2))
       @ getAllProperties_group_limit
   \<and> fst (addProperty_request property)
     = addProperty_insert @ join '','' (object_keys property) @ addProperty_values"
proof (intro conjI)
  show "roundtrips (snd (getUserWithEmail exec email s))
     = roundtrips s @ [(getUserWithEmail_query, [email])]"
    by (simp add: getUserWithEmail_def one_query_sent)
  show "roundtrips (snd (getUserWithId exec uid s))
     = roundtrips s @ [(getUserWithId_query, [uid])]"
    by (simp add: getUserWithId_def one_query_sent)
  show "roundtrips (snd (addUser exec user s))
     = roundtrips s
       @ [(addUser_query,
           [get_prop user ''name'', get_prop user ''email'', get_prop user ''password''])]"
    by (simp add: addUser_def one_query_sent)
  show "roundtrips (snd (getAllReservations exec guest_id limit_arg s))
     = roundtrips s @ [(getAllReservations_query, [guest_id, default_arg (JNum 10) limit_arg])]"
    by (simp add: getAllReservations_def one_query_sent)
  show "roundtrips (snd (getAllProperties mul exec options limit_arg s))
     = roundtrips s @ [getAllProperties_request mul options limit_arg]"
    by (cases "getAllProperties_request mul options limit_arg")
       (simp add: getAllProperties_def one_query_sent)
  show "roundtrips (snd (addProperty exec property s))
     = roundtrips s @ [addProperty_request property]"
    by (rule addProperty_sends)
  show "roundtrips (snd (getAllProperties_unfiltered exec any_options limit_arg s))
     = roundtrips s @ [(getAllProperties_unfiltered_query, [default_arg (JNum 10) limit_arg])]"
    by (simp add: getAllProperties_unfiltered_def one_query_sent)
  show "roundtrips (snd (getAllReservations_stub exec guest_id limit_arg s))
     = roundtrips s @ [(getAllProperties_unfiltered_query, [JNum 2])]"
    by (simp add: getAllReservations_stub_def getAllProperties_unfiltered_def one_query_sent
        default_arg_def)
  show "roundtrips (snd (addUser_select_back exec user s))
     = roundtrips s
       @ (case fst (exec (db s) queryStringAdd
                     [get_prop user ''name'', get_prop user ''email'', get_prop user ''password''])
          of Inl err \<Rightarrow>
               [(queryStringAdd,
                 [get_prop user ''name'', get_prop user ''email'', get_prop user ''password''])]
           | Inr result \<Rightarrow>
               [(queryStringAdd,
                 [get_prop user ''name'', get_prop user ''email'', get_prop user ''password'']),
                (queryStringGet, [get_prop user ''email''])])"
    by (rule select_back_sent)
  show "roundtrips (snd (addProperty_in_memory property_ref s)) = roundtrips s"
    by (simp add: addProperty_in_memory_def Let_def)
  show "fst (getAllProperties_request mul options limit_arg)
     = getAllProperties_select
       @ whereString_of
           (map (\<lambda>p. condition (fst p) (snd p)) (filters_of options (object_keys options) 2))
       @ getAllProperties_group_limit"
    by (rule where_conditions)
  show "fst (addProperty_request property)
     = addProperty_insert @ join '','' (object_keys property) @ addProperty_values"
    by (simp add: addProperty_request_def)
qed

text \<open>
  The claim as stated fails: adding Bob through \<^verbatim>\<open>addUser\<close> of \<^verbatim>\<open>database.js\<close> takes two round
  trips, adding a property through \<^verbatim>\<open>addProperty\<close> of \<^verbatim>\<open>database.js\<close> none.
\<close>

theorem round_trips_counterexample:
  "roundtrips (snd (addUser_select_back users_server bob world0))
     = [(queryStringAdd, [JStr ''Bob'', JStr ''bob@example.com'', JStr ''hunter2'']),
        (queryStringGet, [JStr ''bob@example.com''])]
   \<and> roundtrips (snd (addProperty_in_memory 0 (world0\<lparr>heap := [0 \<mapsto> listing]\<rparr>))) = []"
  by (simp add: select_back_sent users_server_def world0_def bob_def get_prop_def
      statements_differ addProperty_in_memory_def Let_def)

section \<open>In-process state\<close>

lemma one_query_memory:
  "ignores_memory (\<lambda>s. promise_catch log_error
      (promise_then (\<lambda>rows s'. (Resolved (h rows), s')) (pool_query exec q vs s)))"
  unfolding ignores_memory_def
proof (intro allI)
  fix s :: "'a world" and hp p u
  show "heap (snd (promise_catch log_error
            (promise_then (\<lambda>rows s'. (Resolved (h rows), s')) (pool_query exec q vs s))))
          = heap s
      \<and> properties (snd (promise_catch log_error
            (promise_then (\<lambda>rows s'. (Resolved (h rows), s')) (pool_query exec q vs s))))
          = properties s
      \<and> users (snd (promise_catch log_error
            (promise_then (\<lambda>rows s'. (Resolved (h rows), s')) (pool_query exec q vs s))))
          = users s
      \<and> promise_catch log_error
            (promise_then (\<lambda>rows s'. (Resolved (h rows), s'))
               (pool_query exec q vs (s\<lparr>heap := hp, properties := p, users := u\<rparr>)))
          = (fst (promise_catch log_error
                (promise_then (\<lambda>rows s'. (Resolved (h rows), s')) (pool_query exec q vs s))),
             (snd (promise_catch log_error
                (promise_then (\<lambda>rows s'. (Resolved (h rows), s')) (pool_query exec q vs s))))
               \<lparr>heap := hp, properties := p, users := u\<rparr>)"
  proof (cases "exec (db s) q vs")
    case (Pair answer d)
    then show ?thesis
      by (cases answer)
         (simp_all add: pool_query_def promise_then_def promise_catch_def log_error_def
            console_log_def)
  qed
qed

lemma select_back_memory: "ignores_memory (addUser_select_back exec user)"
  unfolding ignores_memory_def
proof (intro allI)
  fix s :: "'a world" and hp p u
  show "heap (snd (addUser_select_back exec user s)) = heap s
      \<and> properties (snd (addUser_select_back exec user s)) = properties s
      \<and> users (snd (addUser_select_back exec user s)) = users s
      \<and> addUser_select_back exec user (s\<lparr>heap := hp, properties := p, users := u\<rparr>)
          = (fst (addUser_select_back exec user s),
             (snd (addUser_select_back exec user s))\<lparr>heap := hp, properties := p, users := u\<rparr>)"
  proof (cases "exec (db s) queryStringAdd
                [get_prop user ''name'', get_prop user ''email'', get_prop user ''password'']")
    case (Pair answer d)
    show ?thesis
    proof (cases answer)
      case (Inl err)
      with Pair show ?thesis
        by (simp add: addUser_select_back_def pool_query_def promise_then_def promise_catch_def
            log_error_def console_log_def)
    next
      case (Inr result)
      show ?thesis
      proof (cases "exec d queryStringGet [get_prop user ''email'']")
        case inner: (Pair answer' d')
        with Pair Inr show ?thesis
          by (cases answer')
             (simp_all add: addUser_select_back_def pool_query_def promise_then_def
                promise_catch_def log_error_def console_log_def)
      qed
    qed
  qed
qed

lemma map_of_replace_key:
  "map_of (replace_key obj key v) k
   = (if k = key \<and> key \<in> set (map fst obj) then Some v else map_of obj k)"
  by (induction obj) (auto simp: rev_image_eqI)

lemma map_of_insert_key:
  "key \<notin> set (map fst obj) \<Longrightarrow>
   map_of (insert_key obj key v) k = (if k = key then Some v else map_of obj k)"
  by (induction obj) auto

lemma get_set_prop:
  "get_prop (set_prop obj key v) k = (if k = key then v else get_prop obj k)"
  by (simp add: get_prop_def set_prop_def object_keys_def map_of_replace_key map_of_insert_key)

lemma addProperty_in_memory_eq:
  "addProperty_in_memory a s
   = (Resolved (JRef a),
      s\<lparr>heap := (heap s)(a \<mapsto>
             set_prop (object_at s a) ''id'' (JNum (int (length (properties s)) + 1))),
        properties :=
          set_prop (properties s) (string_of_nat (length (properties s) + 1)) (JRef a)\<rparr>)"
  by (simp add: addProperty_in_memory_def Let_def object_keys_def object_at_def add.commute)

text \<open>
  C8, as amended.  Every function that queries the database, in every snapshot, ignores
  the in-process state: it neither changes nor reads the heap or the module's objects.
  \<^verbatim>\<open>addProperty\<close> of \<^verbatim>\<open>database.js\<close> and \<^verbatim>\<open>part_000\<close> sends nothing and logs nothing; it
  reads the \<^verbatim>\<open>properties\<close> object, whose number of keys plus one is the new number; it
  changes the object it is given, and of that only \<^verbatim>\<open>id\<close>, which becomes the new number;
  it changes the \<^verbatim>\<open>properties\<close> object, and of that only the entry under the new number,
  which becomes the reference to the object it was given; and it resolves to that
  reference.
\<close>

theorem in_process_state_frame:
  "ignores_memory (getUserWithEmail exec email)
   \<and> ignores_memory (getUserWithId exec uid)
   \<and> ignores_memory (addUser exec user)
   \<and> ignores_memory (addUser_select_back exec user)
   \<and> ignores_memory (getAllReservations exec guest_id limit_arg)
   \<and> ignores_memory (getAllReservations_stub exec guest_id limit_arg)
   \<and> ignores_memory (getAllProperties mul exec options limit_arg)
   \<and> ignores_memory (getAllProperties_unfiltered exec any_options limit_arg)
   \<and> ignores_memory (addProperty exec property)
   \<and> fst (addProperty_in_memory a s) = Resolved (JRef a)
   \<and> db (snd (addProperty_in_memory a s)) = db s
   \<and> console (snd (addProperty_in_memory a s)) = console s
   \<and> roundtrips (snd (addProperty_in_memory a s)) = roundtrips s
   \<and> users (snd (addProperty_in_memory a s)) = users s
   \<and> (\<forall>b. b \<noteq> a \<longrightarrow> heap (snd (addProperty_in_memory a s)) b = heap s b)
   \<and> (\<forall>k. k \<noteq> ''id'' \<longrightarrow>
          get_prop (object_at (snd (addProperty_in_memory a s)) a) k = get_prop (object_at s a) k)
   \<and> get_prop (object_at (snd (addProperty_in_memory a s)) a) ''id''
       = JNum (int (length (object_keys (properties s))) + 1)
   \<and> (\<forall>k. k \<noteq> string_of_nat (length (object_keys (properties s)) + 1) \<longrightarrow>
          get_prop (properties (snd (addProperty_in_memory a s))) k = get_prop (properties s) k)
   \<and> get_prop (properties (snd (addProperty_in_memory a s)))
         (string_of_nat (length (object_keys (properties s)) + 1))
       = JRef a"
proof (intro conjI)
  show "ignores_memory (getUserWithEmail exec email)"
    using one_query_memory [of _ exec getUserWithEmail_query "[email]"]
    by (simp add: getUserWithEmail_def [abs_def])
  show "ignores_memory (getUserWithId exec uid)"
    using one_query_memory [of _ exec getUserWithId_query "[uid]"]
    by (simp add: getUserWithId_def [abs_def])
  show "ignores_memory (addUser exec user)"
    using one_query_memory [of first_row exec addUser_query]
    by (simp add: addUser_def [abs_def])
  show "ignores_memory (addUser_select_back exec user)"
    by (rule select_back_memory)
  show "ignores_memory (getAllReservations exec guest_id limit_arg)"
    using one_query_memory [of _ exec getAllReservations_query]
    by (simp add: getAllReservations_def [abs_def])
  show "ignores_memory (getAllProperties_unfiltered exec any_options limit_arg)"
    using one_query_memory [of JArr exec getAllProperties_unfiltered_query]
    by (simp add: getAllProperties_unfiltered_def [abs_def])
  then show "ignores_memory (getAllReservations_stub exec guest_id limit_arg)"
    using one_query_memory [of JArr exec getAllProperties_unfiltered_query]
    by (simp add: getAllReservations_stub_def [abs_def] getAllProperties_unfiltered_def [abs_def])
  show "ignores_memory (getAllProperties mul exec options limit_arg)"
    using one_query_memory [of JArr exec]
    by (cases "getAllProperties_request mul options limit_arg")
       (simp add: getAllProperties_def [abs_def])
  show "ignores_memory (addProperty exec property)"
    using one_query_memory [of first_row exec]
    by (cases "addProperty_request property") (simp add: addProperty_def [abs_def])
  show "fst (addProperty_in_memory a s) = Resolved (JRef a)"
    by (simp add: addProperty_in_memory_eq)
  show "db (snd (addProperty_in_memory a s)) = db s"
    by (simp add: addProperty_in_memory_eq)
  show "console (snd (addProperty_in_memory a s)) = console s"
    by (simp add: addProperty_in_memory_eq)
  show "roundtrips (snd (addProperty_in_memory a s)) = roundtrips s"
    by (simp add: addProperty_in_memory_eq)
  show "users (snd (addProperty_in_memory a s)) = users s"
    by (simp add: addProperty_in_memory_eq)
  show "\<forall>b. b \<noteq> a \<longrightarrow> heap (snd (addProperty_in_memory a s)) b = heap s b"
    by (simp add: addProperty_in_memory_eq)
  show "\<forall>k. k \<noteq> ''id'' \<longrightarrow>
          get_prop (object_at (snd (addProperty_in_memory a s)) a) k = get_prop (object_at s a) k"
    by (simp add: addProperty_in_memory_eq object_at_def get_set_prop)
  show "get_prop (object_at (snd (addProperty_in_memory a s)) a) ''id''
       = JNum (int (length (object_keys (properties s))) + 1)"
    by (simp add: addProperty_in_memory_eq object_at_def get_set_prop object_keys_def)
  show "\<forall>k. k \<noteq> string_of_nat (length (object_keys (properties s)) + 1) \<longrightarrow>
          get_prop (properties (snd (addProperty_in_memory a s))) k = get_prop (properties s) k"
    by (simp add: addProperty_in_memory_eq get_set_prop object_keys_def)
  show "get_prop (properties (snd (addProperty_in_memory a s)))
         (string_of_nat (length (object_keys (properties s)) + 1))
       = JRef a"
    by (simp add: addProperty_in_memory_eq get_set_prop object_keys_def)
qed

lemma array_indices:
  "array_index ''1'' = Some 1" "array_index ''2'' = Some 2" "array_index ''4'' = Some 4"
  "array_index ''7'' = Some 7" "array_index ''note'' = None" "array_index ''id'' = None"
  "array_index ''title'' = None" "array_index ''city'' = None"
  by (simp_all add: array_index_def string_of_nat.simps digit_def)

lemma run_memory0:
  "addProperty_in_memory 2 memory0
   = (Resolved (JRef 2),
      memory0\<lparr>heap := (heap memory0)(2 \<mapsto> [(''title'', JStr ''Barn''), (''city'', JStr ''Vancouver''),
                                             (''id'', JNum 4)]),
              properties := [(''1'', JRef 0), (''4'', JRef 2), (''7'', JRef 1),
                             (''note'', JStr ''kept'')]\<rparr>)"
  by (simp add: addProperty_in_memory_eq memory0_def object_at_def set_prop_def object_keys_def
      enumerated_before_def array_indices string_of_nat.simps digit_def)

theorem in_process_state_frame_witness:
  "(0::nat) \<noteq> 2 \<and> heap (snd (addProperty_in_memory 2 memory0)) 0 = heap memory0 0
   \<and> ''title'' \<noteq> ''id''
   \<and> get_prop (object_at (snd (addProperty_in_memory 2 memory0)) 2) ''title'' = JStr ''Barn''
   \<and> get_prop (object_at (snd (addProperty_in_memory 2 memory0)) 2) ''id'' = JNum 4
   \<and> ''7'' \<noteq> string_of_nat (length (object_keys (properties memory0)) + 1)
   \<and> get_prop (properties (snd (addProperty_in_memory 2 memory0))) ''7'' = JRef 1
   \<and> get_prop (properties (snd (addProperty_in_memory 2 memory0))) ''4'' = JRef 2
   \<and> object_keys (properties (snd (addProperty_in_memory 2 memory0))) = [''1'', ''4'', ''7'', ''note'']"
  using in_process_state_frame [where a = 2 and s = memory0]
  by (simp add: run_memory0 get_prop_def object_at_def object_keys_def)
     (simp add: memory0_def string_of_nat.simps digit_def)

text \<open>
  The claim as stated fails.  The first call changes the caller's object, not only the
  \<^verbatim>\<open>properties\<close> object, and the number it gives is read from the \<^verbatim>\<open>properties\<close> object;
  adding the same object again changes what the entry stored first shows: both entries
  are the one object, now with \<^verbatim>\<open>id\<close> 2.
\<close>

theorem in_process_state_counterexample:
  "heap fresh0 0 = Some [(''title'', JStr ''Cabin'')]
   \<and> heap (snd (addProperty_in_memory 0 fresh0)) 0
     = Some [(''title'', JStr ''Cabin''), (''id'', JNum 1)]
   \<and> properties (snd (addProperty_in_memory 0 fresh0)) = [(''1'', JRef 0)]
   \<and> heap (snd (addProperty_in_memory 0 (snd (addProperty_in_memory 0 fresh0)))) 0
     = Some [(''title'', JStr ''Cabin''), (''id'', JNum 2)]
   \<and> properties (snd (addProperty_in_memory 0 (snd (addProperty_in_memory 0 fresh0))))
     = [(''1'', JRef 0), (''2'', JRef 0)]"
  by (simp add: addProperty_in_memory_eq fresh0_def object_at_def set_prop_def object_keys_def
      enumerated_before_def array_indices string_of_nat.simps digit_def)

end
